theory Spec2Isabelle
  imports Complex_Main
begin

section \<open>Values shared by both modules\<close>

text \<open>
  A Python \<open>str\<close> is modelled as its UTF-8 encoding, a \<open>string\<close> of bytes. Substring
  tests and the regular expressions of the source (literals separated by \<open>.*?\<close>) give the
  same answer on code points and on UTF-8 bytes, since an encoded literal can only occur
  at a code point boundary.

  A decoded JSON document is a \<open>json\<close> value. An object keeps its members in insertion
  order, as a Python \<open>dict\<close> does; numbers are the integral ones.
\<close>

datatype json =
    JNull
  | JBool bool
  | JInt int
  | JStr string
  | JArr "json list"
  | JObj "(string \<times> json) list"

datatype py_error =
  TypeError | AttributeError | KeyError | ValueError | RuntimeError | HTTPError | OverflowError

fun starts_with :: "string \<Rightarrow> string \<Rightarrow> bool" where
  "starts_with s [] = True"
| "starts_with [] (p # ps) = False"
| "starts_with (c # cs) (p # ps) = (c = p \<and> starts_with cs ps)"

text \<open>\<open>needle in hay\<close> on two strings.\<close>

fun str_contains :: "string \<Rightarrow> string \<Rightarrow> bool" where
  "str_contains needle [] = (needle = [])"
| "str_contains needle (c # cs) = (starts_with (c # cs) needle \<or> str_contains needle cs)"

definition lower_char :: "char \<Rightarrow> char" where
  "lower_char c =
     (case map_of (zip ''ABCDEFGHIJKLMNOPQRSTUVWXYZ'' ''abcdefghijklmnopqrstuvwxyz'') c of
        None \<Rightarrow> c | Some l \<Rightarrow> l)"

text \<open>
  Case folding reads the string from left to right: where a key of the table starts, its
  value is put out in place of the key; any other byte is an ASCII letter to be made
  lower case or is copied.
\<close>

function fold_with :: "(string \<times> string) list \<Rightarrow> string \<Rightarrow> string" where
  "fold_with tbl [] = []"
| "fold_with tbl (c # cs) =
     (case find (\<lambda>(k, v). k \<noteq> [] \<and> starts_with (c # cs) k) tbl of
        None \<Rightarrow> lower_char c # fold_with tbl cs
      | Some (k, v) \<Rightarrow> v @ fold_with tbl (drop (length k) (c # cs)))"
  by pat_completeness auto
termination
proof (relation "measure (\<lambda>(tbl, s). length s)")
  show "wf (measure (\<lambda>(tbl, s). length s))" by simp
next
  fix tbl :: "(string \<times> string) list" and c :: char and cs :: string
  show "((tbl, cs), (tbl, c # cs)) \<in> measure (\<lambda>(tbl, s). length s)" by simp
next
  fix tbl :: "(string \<times> string) list" and c :: char and cs k v :: string
    and x2 :: "string \<times> string"
  assume "find (\<lambda>(k, v). k \<noteq> [] \<and> starts_with (c # cs) k) tbl = Some x2"
    and "(k, v) = x2"
  then have "k \<noteq> []" by (auto simp: find_Some_iff)
  then show "((tbl, drop (length k) (c # cs)), (tbl, c # cs)) \<in> measure (\<lambda>(tbl, s). length s)"
    by (cases k) auto
qed

text \<open>
  \<open>str.lower()\<close>. Besides the ASCII capitals, two code points have a lower-case form
  with an ASCII character in it: U+0130 becomes \<open>i\<close> followed by U+0307, and U+212A
  becomes \<open>k\<close>. Any other code point is left as it is; Python gives it a lower-case form
  without ASCII characters. The strings searched for in a lower-cased text are ASCII or
  have no case, so every such test gives what it gives in Python.
\<close>

definition lower_special :: "(string \<times> string) list" where
  "lower_special =
     [([CHR 0xC4, CHR 0xB0], [CHR ''i'', CHR 0xCC, CHR 0x87]),
      ([CHR 0xE2, CHR 0x84, CHR 0xAA], ''k'')]"

definition lower :: "string \<Rightarrow> string" where
  "lower s = fold_with lower_special s"

text \<open>
  What \<open>re.IGNORECASE\<close> takes for equal to a lower-case ASCII letter of a pattern: the
  capital, and besides U+0130 and U+0131 for \<open>i\<close>, U+017F for \<open>s\<close> and U+212A for
  \<open>k\<close>. The text is folded to these letters before it is searched.
\<close>

definition ignorecase_special :: "(string \<times> string) list" where
  "ignorecase_special =
     [([CHR 0xC4, CHR 0xB0], ''i''),
      ([CHR 0xC4, CHR 0xB1], ''i''),
      ([CHR 0xC5, CHR 0xBF], ''s''),
      ([CHR 0xE2, CHR 0x84, CHR 0xAA], ''k'')]"

definition fold_ignorecase :: "string \<Rightarrow> string" where
  "fold_ignorecase s = fold_with ignorecase_special s"

text \<open>\<open>d.get(k, default)\<close> on the members of an object.\<close>

definition dict_get :: "(string \<times> json) list \<Rightarrow> string \<Rightarrow> json \<Rightarrow> json" where
  "dict_get kvs k dflt = (case map_of kvs k of None \<Rightarrow> dflt | Some v \<Rightarrow> v)"

text \<open>
  \<open>s in v\<close> for a string \<open>s\<close>: a substring test on a string, an element test on a list, a
  key test on a dict, and a \<open>TypeError\<close> (\<open>None\<close> here) on \<open>None\<close>, a bool or a number.
\<close>

fun py_in :: "string \<Rightarrow> json \<Rightarrow> bool option" where
  "py_in s (JStr t) = Some (str_contains s t)"
| "py_in s (JArr xs) = Some (JStr s \<in> set xs)"
| "py_in s (JObj kvs) = Some (s \<in> fst ` set kvs)"
| "py_in s _ = None"

text \<open>Truthiness of a decoded value, as \<open>not v\<close> tests it.\<close>

fun truthy :: "json \<Rightarrow> bool" where
  "truthy JNull = False"
| "truthy (JBool b) = b"
| "truthy (JInt i) = (i \<noteq> 0)"
| "truthy (JStr s) = (s \<noteq> [])"
| "truthy (JArr xs) = (xs \<noteq> [])"
| "truthy (JObj kvs) = (kvs \<noteq> [])"

subsection \<open>\<open>json.dumps(v, ensure_ascii=False)\<close>\<close>

definition hex_digit :: "nat \<Rightarrow> char" where
  "hex_digit n = ''0123456789abcdef'' ! (n mod 16)"

text \<open>
  The encoder escapes the quote, the backslash and the control characters below 0x20;
  with \<open>ensure_ascii=False\<close> every other character is copied.
\<close>

definition escape_char :: "char \<Rightarrow> string" where
  "escape_char c =
     (if c = CHR 0x22 then [CHR 0x5C, CHR 0x22]
      else if c = CHR 0x5C then [CHR 0x5C, CHR 0x5C]
      else if c = CHR 0x0A then [CHR 0x5C, CHR ''n'']
      else if c = CHR 0x0D then [CHR 0x5C, CHR ''r'']
      else if c = CHR 0x09 then [CHR 0x5C, CHR ''t'']
      else if c = CHR 0x08 then [CHR 0x5C, CHR ''b'']
      else if c = CHR 0x0C then [CHR 0x5C, CHR ''f'']
      else if (of_char c :: nat) < 32
        then [CHR 0x5C, CHR ''u'', CHR ''0'', CHR ''0'',
              hex_digit (of_char c div 16), hex_digit (of_char c)]
      else [c])"

definition quote :: "string \<Rightarrow> string" where
  "quote s = [CHR 0x22] @ concat (map escape_char s) @ [CHR 0x22]"

fun digits :: "nat \<Rightarrow> string" where
  "digits n =
     (if n < 10 then [''0123456789'' ! n]
      else digits (n div 10) @ [''0123456789'' ! (n mod 10)])"

definition str_of_int :: "int \<Rightarrow> string" where
  "str_of_int i = (if i < 0 then CHR ''-'' # digits (nat (- i)) else digits (nat i))"

fun join :: "string \<Rightarrow> string list \<Rightarrow> string" where
  "join sep [] = []"
| "join sep [x] = x"
| "join sep (x # y # ys) = x @ sep @ join sep (y # ys)"

fun dumps :: "json \<Rightarrow> string" where
  "dumps JNull = ''null''"
| "dumps (JBool b) = (if b then ''true'' else ''false'')"
| "dumps (JInt i) = str_of_int i"
| "dumps (JStr s) = quote s"
| "dumps (JArr xs) = ''['' @ join '', '' (map dumps xs) @ '']''"
| "dumps (JObj kvs) =
     ''{'' @ join '', '' (map (\<lambda>(k, v). quote k @ '': '' @ dumps v) kvs) @ ''}''"

subsection \<open>\<open>re.search\<close> for the patterns of the source\<close>

text \<open>
  Every pattern of the source is an alternation of branches, each branch a sequence of
  literals separated by \<open>.*\<close> or \<open>.*?\<close>. A branch is the list of its literals and a pattern
  the list of its branches. \<open>.\<close> matches any character but a newline. Whether a match
  exists does not depend on greediness.
\<close>

type_synonym branch = "string list"
type_synonym pattern = "branch list"

fun match_here :: "branch \<Rightarrow> string \<Rightarrow> bool"
and match_gap :: "branch \<Rightarrow> string \<Rightarrow> bool" where
  "match_here [] s = True"
| "match_here (l # ls) s = (starts_with s l \<and> match_gap ls (drop (length l) s))"
| "match_gap ls [] = match_here ls []"
| "match_gap ls (c # cs) = (match_here ls (c # cs) \<or> (c \<noteq> CHR 0x0A \<and> match_gap ls cs))"

fun search_branch :: "branch \<Rightarrow> string \<Rightarrow> bool" where
  "search_branch b [] = match_here b []"
| "search_branch b (c # cs) = (match_here b (c # cs) \<or> search_branch b cs)"

text \<open>
  \<open>re.search(p, s, re.IGNORECASE)\<close> as a truth value; the literals of \<open>p\<close> are lower
  case or have no case.
\<close>

definition re_search_ignorecase :: "pattern \<Rightarrow> string \<Rightarrow> bool" where
  "re_search_ignorecase p s = (\<exists>b \<in> set p. search_branch b (fold_ignorecase s))"

section \<open>The response handler (\<open>protobuf2openai/warp_response_handler.py\<close>)\<close>

datatype TransactionState = IDLE | ACTIVE | FAILED | RETRYING

record handler =
  transaction_state :: TransactionState
  retry_count :: int
  max_retries :: int

definition new_handler :: "int \<Rightarrow> handler" where
  "new_handler m = \<lparr>transaction_state = IDLE, retry_count = 0, max_retries = m\<rparr>"

definition stuck_indicators :: "pattern list" where
  "stuck_indicators =
     [[[''rollback_transaction'']],
      [[''update_task_description'']],
      [[''begin_transaction'', ''rollback_transaction'']]]"

definition kw_create_file_zh :: string where
  "kw_create_file_zh =
     [CHR 0xE5, CHR 0x88, CHR 0x9B, CHR 0xE5, CHR 0xBB, CHR 0xBA, CHR 0xE6, CHR 0x96, CHR 0x87,
     CHR 0xE4, CHR 0xBB, CHR 0xB6]"

definition kw_modify_code_zh :: string where
  "kw_modify_code_zh =
     [CHR 0xE4, CHR 0xBF, CHR 0xAE, CHR 0xE6, CHR 0x94, CHR 0xB9, CHR 0xE4, CHR 0xBB, CHR 0xA3,
     CHR 0xE7, CHR 0xA0, CHR 0x81]"

definition kw_write_code_zh :: string where
  "kw_write_code_zh =
     [CHR 0xE5, CHR 0x86, CHR 0x99, CHR 0xE4, CHR 0xBB, CHR 0xA3, CHR 0xE7, CHR 0xA0, CHR 0x81]"

definition kw_save_zh :: string where
  "kw_save_zh =
     [CHR 0xE4, CHR 0xBF, CHR 0x9D, CHR 0xE5, CHR 0xAD, CHR 0x98]"

definition kw_file_zh :: string where
  "kw_file_zh =
     [CHR 0xE6, CHR 0x96, CHR 0x87, CHR 0xE4, CHR 0xBB, CHR 0xB6]"

definition file_operation_keywords :: "string list" where
  "file_operation_keywords =
     [kw_create_file_zh, kw_modify_code_zh, kw_write_code_zh, kw_save_zh, kw_file_zh,
      ''create file'', ''write code'', ''save'', ''implement'',
      ''apply_file_diffs'', ''create_files'', ''read_files'']"

text \<open>
  \<open>any(action_type in action for action in actions)\<close>: the generator stops at the first
  hit, and an element that cannot be searched raises before a later hit is seen.
\<close>

fun any_in :: "string \<Rightarrow> json list \<Rightarrow> bool option" where
  "any_in a [] = Some False"
| "any_in a (x # xs) =
     (case py_in a x of
        None \<Rightarrow> None
      | Some True \<Rightarrow> Some True
      | Some False \<Rightarrow> any_in a xs)"

text \<open>
  \<open>_contains_action\<close>. An event that is not a dict has no \<open>get\<close>; that exception and the
  one of \<open>any_in\<close> are caught and give \<open>False\<close>.
\<close>

definition contains_action :: "json \<Rightarrow> string \<Rightarrow> bool" where
  "contains_action event_data action_type =
     (case event_data of
        JObj ev \<Rightarrow>
          (case dict_get ev ''client_actions'' (JObj []) of
             JObj client_actions \<Rightarrow>
               (case dict_get client_actions ''actions'' (JArr []) of
                  JArr actions \<Rightarrow>
                    (case any_in action_type actions of None \<Rightarrow> False | Some b \<Rightarrow> b)
                | _ \<Rightarrow> False)
           | _ \<Rightarrow> False)
      | _ \<Rightarrow> False)"

text \<open>
  The content test of \<open>_is_stuck_response\<close>:
  \<open>"text" in event_data.get("message", {}).get("agent_output", {})\<close>, with \<open>None\<close> for the
  exception it raises when one of the two lookups does not give a dict or the last value
  cannot be searched.
\<close>

definition has_output_text :: "json \<Rightarrow> bool option" where
  "has_output_text event_data =
     (case event_data of
        JObj ev \<Rightarrow>
          (case dict_get ev ''message'' (JObj []) of
             JObj msg \<Rightarrow> py_in ''text'' (dict_get msg ''agent_output'' (JObj []))
           | _ \<Rightarrow> None)
      | _ \<Rightarrow> None)"

definition is_stuck_response :: "json \<Rightarrow> bool" where
  "is_stuck_response event_data =
     (let event_str = dumps event_data in
      if \<exists>indicator \<in> set stuck_indicators. re_search_ignorecase indicator event_str
        then True
      else if str_contains ''update_task_description'' event_str then
        (if str_contains ''append_to_message_content'' event_str then False
         else if str_contains ''agent_output'' event_str then False
         else (case has_output_text event_data of
                 None \<Rightarrow> False
               | Some has_content \<Rightarrow> \<not> has_content))
      else False)"

definition retry_message_0 :: string where
  "retry_message_0 =
     [CHR 0xE8, CHR 0xAE, CHR 0xA9, CHR 0xE6, CHR 0x88, CHR 0x91, CHR 0xE9, CHR 0x87, CHR 0x8D,
     CHR 0xE6, CHR 0x96, CHR 0xB0, CHR 0xE4, CHR 0xB8, CHR 0xBA, CHR 0xE6, CHR 0x82, CHR 0xA8,
     CHR 0xE5, CHR 0xA4, CHR 0x84, CHR 0xE7, CHR 0x90, CHR 0x86, CHR 0xE8, CHR 0xBF, CHR 0x99,
     CHR 0xE4, CHR 0xB8, CHR 0xAA, CHR 0xE8, CHR 0xAF, CHR 0xB7, CHR 0xE6, CHR 0xB1, CHR 0x82] @
     ''...''"

definition retry_message_1 :: string where
  "retry_message_1 =
     [CHR 0xE6, CHR 0xAD, CHR 0xA3, CHR 0xE5, CHR 0x9C, CHR 0xA8, CHR 0xE5, CHR 0xB0, CHR 0x9D,
     CHR 0xE8, CHR 0xAF, CHR 0x95, CHR 0xE4, CHR 0xB8, CHR 0x8D, CHR 0xE5, CHR 0x90, CHR 0x8C,
     CHR 0xE7, CHR 0x9A, CHR 0x84, CHR 0xE6, CHR 0x96, CHR 0xB9, CHR 0xE5, CHR 0xBC, CHR 0x8F,
     CHR 0xE6, CHR 0x9D, CHR 0xA5, CHR 0xE5, CHR 0xB8, CHR 0xAE, CHR 0xE5, CHR 0x8A, CHR 0xA9,
     CHR 0xE6, CHR 0x82, CHR 0xA8] @ ''...''"

definition retry_message_2 :: string where
  "retry_message_2 =
     [CHR 0xE5, CHR 0x88, CHR 0x87, CHR 0xE6, CHR 0x8D, CHR 0xA2, CHR 0xE5, CHR 0x88, CHR 0xB0,
     CHR 0xE6, CHR 0x9B, CHR 0xB4, CHR 0xE7, CHR 0xA8, CHR 0xB3, CHR 0xE5, CHR 0xAE, CHR 0x9A,
     CHR 0xE7, CHR 0x9A, CHR 0x84, CHR 0xE5, CHR 0xA4, CHR 0x84, CHR 0xE7, CHR 0x90, CHR 0x86,
     CHR 0xE6, CHR 0x96, CHR 0xB9, CHR 0xE5, CHR 0xBC, CHR 0x8F] @ ''...''"

definition retry_prefix :: string where
  "retry_prefix =
     [CHR 0x0A, CHR 0x0A, CHR 0xF0, CHR 0x9F, CHR 0x94, CHR 0x84] @ '' ''"

definition fallback_content :: string where
  "fallback_content =
     [CHR 0xE2, CHR 0x9A, CHR 0xA0, CHR 0xEF, CHR 0xB8, CHR 0x8F] @ '' '' @ [CHR 0xE7, CHR 0x94,
     CHR 0xB1, CHR 0xE4, CHR 0xBA, CHR 0x8E, CHR 0xE6, CHR 0x8A, CHR 0x80, CHR 0xE6, CHR 0x9C,
     CHR 0xAF, CHR 0xE9, CHR 0x99, CHR 0x90, CHR 0xE5, CHR 0x88, CHR 0xB6, CHR 0xEF, CHR 0xBC,
     CHR 0x8C, CHR 0xE6, CHR 0x88, CHR 0x91, CHR 0xE6, CHR 0x97, CHR 0xA0, CHR 0xE6, CHR 0xB3,
     CHR 0x95, CHR 0xE7, CHR 0x9B, CHR 0xB4, CHR 0xE6, CHR 0x8E, CHR 0xA5, CHR 0xE6, CHR 0x89,
     CHR 0xA7, CHR 0xE8, CHR 0xA1, CHR 0x8C, CHR 0xE6, CHR 0x96, CHR 0x87, CHR 0xE4, CHR 0xBB,
     CHR 0xB6, CHR 0xE6, CHR 0x93, CHR 0x8D, CHR 0xE4, CHR 0xBD, CHR 0x9C, CHR 0xE3, CHR 0x80,
     CHR 0x82, CHR 0x0A, CHR 0x0A, CHR 0xE4, CHR 0xB8, CHR 0x8D, CHR 0xE8, CHR 0xBF, CHR 0x87,
     CHR 0xE6, CHR 0x88, CHR 0x91, CHR 0xE5, CHR 0x8F, CHR 0xAF, CHR 0xE4, CHR 0xBB, CHR 0xA5,
     CHR 0xE4, CHR 0xB8, CHR 0xBA, CHR 0xE6, CHR 0x82, CHR 0xA8, CHR 0xE6, CHR 0x8F, CHR 0x90,
     CHR 0xE4, CHR 0xBE, CHR 0x9B, CHR 0xE4, CHR 0xBB, CHR 0xA5, CHR 0xE4, CHR 0xB8, CHR 0x8B,
     CHR 0xE6, CHR 0x9B, CHR 0xBF, CHR 0xE4, CHR 0xBB, CHR 0xA3, CHR 0xE6, CHR 0x96, CHR 0xB9,
     CHR 0xE6, CHR 0xA1, CHR 0x88, CHR 0xEF, CHR 0xBC, CHR 0x9A, CHR 0x0A, CHR 0x0A] @ ''1. **''
     @ [CHR 0xE4, CHR 0xBB, CHR 0xA3, CHR 0xE7, CHR 0xA0, CHR 0x81, CHR 0xE7, CHR 0xA4, CHR 0xBA,
     CHR 0xE4, CHR 0xBE, CHR 0x8B, CHR 0xE5, CHR 0x92, CHR 0x8C, CHR 0xE6, CHR 0x8C, CHR 0x87,
     CHR 0xE5, CHR 0xAF, CHR 0xBC] @ ''**'' @ [CHR 0xEF, CHR 0xBC, CHR 0x9A, CHR 0xE6, CHR 0x88,
     CHR 0x91, CHR 0xE5, CHR 0x8F, CHR 0xAF, CHR 0xE4, CHR 0xBB, CHR 0xA5, CHR 0xE4, CHR 0xB8,
     CHR 0xBA, CHR 0xE6, CHR 0x82, CHR 0xA8, CHR 0xE6, CHR 0x8F, CHR 0x90, CHR 0xE4, CHR 0xBE,
     CHR 0x9B, CHR 0xE5, CHR 0xAE, CHR 0x8C, CHR 0xE6, CHR 0x95, CHR 0xB4, CHR 0xE7, CHR 0x9A,
     CHR 0x84, CHR 0xE4, CHR 0xBB, CHR 0xA3, CHR 0xE7, CHR 0xA0, CHR 0x81, CHR 0xE7, CHR 0xA4,
     CHR 0xBA, CHR 0xE4, CHR 0xBE, CHR 0x8B, CHR 0xE5, CHR 0x92, CHR 0x8C, CHR 0xE5, CHR 0xAE,
     CHR 0x9E, CHR 0xE7, CHR 0x8E, CHR 0xB0, CHR 0xE6, CHR 0x80, CHR 0x9D, CHR 0xE8, CHR 0xB7,
     CHR 0xAF, CHR 0x0A] @ ''2. **'' @ [CHR 0xE5, CHR 0x88, CHR 0x86, CHR 0xE6, CHR 0xAD, CHR
     0xA5, CHR 0xE9, CHR 0xAA, CHR 0xA4, CHR 0xE8, CHR 0xAF, CHR 0xB4, CHR 0xE6, CHR 0x98, CHR
     0x8E] @ ''**'' @ [CHR 0xEF, CHR 0xBC, CHR 0x9A, CHR 0xE8, CHR 0xAF, CHR 0xA6, CHR 0xE7, CHR
     0xBB, CHR 0x86, CHR 0xE8, CHR 0xAF, CHR 0xB4, CHR 0xE6, CHR 0x98, CHR 0x8E, CHR 0xE5, CHR
     0xA6, CHR 0x82, CHR 0xE4, CHR 0xBD, CHR 0x95, CHR 0xE5, CHR 0x9C, CHR 0xA8, CHR 0xE6, CHR
     0x82, CHR 0xA8, CHR 0xE7, CHR 0x9A, CHR 0x84, CHR 0xE7, CHR 0x8E, CHR 0xAF, CHR 0xE5, CHR
     0xA2, CHR 0x83, CHR 0xE4, CHR 0xB8, CHR 0xAD, CHR 0xE5, CHR 0xAE, CHR 0x9E, CHR 0xE7, CHR
     0x8E, CHR 0xB0, CHR 0xE7, CHR 0x9B, CHR 0xB8, CHR 0xE5, CHR 0x85, CHR 0xB3, CHR 0xE5, CHR
     0x8A, CHR 0x9F, CHR 0xE8, CHR 0x83, CHR 0xBD, CHR 0x0A] @ ''3. **'' @ [CHR 0xE6, CHR 0x9C,
     CHR 0x80, CHR 0xE4, CHR 0xBD, CHR 0xB3, CHR 0xE5, CHR 0xAE, CHR 0x9E, CHR 0xE8, CHR 0xB7,
     CHR 0xB5, CHR 0xE5, CHR 0xBB, CHR 0xBA, CHR 0xE8, CHR 0xAE, CHR 0xAE] @ ''**'' @ [CHR 0xEF,
     CHR 0xBC, CHR 0x9A, CHR 0xE5, CHR 0x88, CHR 0x86, CHR 0xE4, CHR 0xBA, CHR 0xAB, CHR 0xE7,
     CHR 0x9B, CHR 0xB8, CHR 0xE5, CHR 0x85, CHR 0xB3, CHR 0xE7, CHR 0x9A, CHR 0x84, CHR 0xE6,
     CHR 0x9C, CHR 0x80, CHR 0xE4, CHR 0xBD, CHR 0xB3, CHR 0xE5, CHR 0xAE, CHR 0x9E, CHR 0xE8,
     CHR 0xB7, CHR 0xB5, CHR 0xE5, CHR 0x92, CHR 0x8C, CHR 0xE6, CHR 0x8A, CHR 0x80, CHR 0xE6,
     CHR 0x9C, CHR 0xAF, CHR 0xE5, CHR 0xBB, CHR 0xBA, CHR 0xE8, CHR 0xAE, CHR 0xAE, CHR 0x0A,
     CHR 0x0A, CHR 0xE8, CHR 0xAF, CHR 0xB7, CHR 0xE5, CHR 0x91, CHR 0x8A, CHR 0xE8, CHR 0xAF,
     CHR 0x89, CHR 0xE6, CHR 0x88, CHR 0x91, CHR 0xE6, CHR 0x82, CHR 0xA8, CHR 0xE6, CHR 0x83,
     CHR 0xB3, CHR 0xE8, CHR 0xA6, CHR 0x81, CHR 0xE5, CHR 0xAE, CHR 0x9E, CHR 0xE7, CHR 0x8E,
     CHR 0xB0, CHR 0xE4, CHR 0xBB, CHR 0x80, CHR 0xE4, CHR 0xB9, CHR 0x88, CHR 0xE5, CHR 0x8A,
     CHR 0x9F, CHR 0xE8, CHR 0x83, CHR 0xBD, CHR 0xEF, CHR 0xBC, CHR 0x8C, CHR 0xE6, CHR 0x88,
     CHR 0x91, CHR 0xE4, CHR 0xBC, CHR 0x9A, CHR 0xE4, CHR 0xB8, CHR 0xBA, CHR 0xE6, CHR 0x82,
     CHR 0xA8, CHR 0xE6, CHR 0x8F, CHR 0x90, CHR 0xE4, CHR 0xBE, CHR 0x9B, CHR 0xE8, CHR 0xAF,
     CHR 0xA6, CHR 0xE7, CHR 0xBB, CHR 0x86, CHR 0xE7, CHR 0x9A, CHR 0x84, CHR 0xE4, CHR 0xBB,
     CHR 0xA3, CHR 0xE7, CHR 0xA0, CHR 0x81, CHR 0xE7, CHR 0xA4, CHR 0xBA, CHR 0xE4, CHR 0xBE,
     CHR 0x8B, CHR 0xE5, CHR 0x92, CHR 0x8C, CHR 0xE5, CHR 0xAE, CHR 0x9E, CHR 0xE6, CHR 0x96,
     CHR 0xBD, CHR 0xE6, CHR 0x8C, CHR 0x87, CHR 0xE5, CHR 0xAF, CHR 0xBC, CHR 0xEF, CHR 0xBC,
     CHR 0x81]"

definition error_prefix :: string where
  "error_prefix =
     [CHR 0x0A, CHR 0x0A, CHR 0xE2, CHR 0x9D, CHR 0x8C] @ '' '' @ [CHR 0xE5, CHR 0xA4, CHR 0x84,
     CHR 0xE7, CHR 0x90, CHR 0x86, CHR 0xE8, CHR 0xBF, CHR 0x87, CHR 0xE7, CHR 0xA8, CHR 0x8B,
     CHR 0xE4, CHR 0xB8, CHR 0xAD, CHR 0xE5, CHR 0x87, CHR 0xBA, CHR 0xE7, CHR 0x8E, CHR 0xB0,
     CHR 0xE9, CHR 0x94, CHR 0x99, CHR 0xE8, CHR 0xAF, CHR 0xAF, CHR 0xEF, CHR 0xBC, CHR 0x9A]"

definition error_suffix :: string where
  "error_suffix =
     [CHR 0x0A, CHR 0x0A, CHR 0xE8, CHR 0xAF, CHR 0xB7, CHR 0xE9, CHR 0x87, CHR 0x8D, CHR 0xE6,
     CHR 0x96, CHR 0xB0, CHR 0xE5, CHR 0xB0, CHR 0x9D, CHR 0xE8, CHR 0xAF, CHR 0x95, CHR 0xE6,
     CHR 0x82, CHR 0xA8, CHR 0xE7, CHR 0x9A, CHR 0x84, CHR 0xE8, CHR 0xAF, CHR 0xB7, CHR 0xE6,
     CHR 0xB1, CHR 0x82, CHR 0xE3, CHR 0x80, CHR 0x82]"

definition retry_messages :: "string list" where
  "retry_messages = [retry_message_0, retry_message_1, retry_message_2]"

definition delta_event :: "string \<Rightarrow> json" where
  "delta_event content =
     JObj [(''choices'', JArr [JObj [(''delta'', JObj [(''content'', JStr content)])]])]"

text \<open>\<open>_create_retry_response\<close> reads the counter after it has been incremented.\<close>

definition create_retry_response :: "int \<Rightarrow> json" where
  "create_retry_response rc =
     delta_event (retry_prefix @ retry_messages ! nat ((rc - 1) mod 3) @ [CHR 0x0A, CHR 0x0A])"

definition create_fallback_response :: json where
  "create_fallback_response = delta_event fallback_content"

definition create_error_response :: "string \<Rightarrow> json" where
  "create_error_response error_msg = delta_event (error_prefix @ error_msg @ error_suffix)"

text \<open>
  What \<open>handle_sse_event\<close> returns, tagged by the function that built it: the event itself
  (\<open>_process_normal_event\<close>), a retry marker for the given value of the counter, the
  fallback message, or the error message of the \<open>except\<close> branch.
\<close>

datatype emitted =
    PassThrough json
  | RetryMarker int
  | Fallback
  | ErrorResponse string

fun to_json :: "emitted \<Rightarrow> json" where
  "to_json (PassThrough e) = e"
| "to_json (RetryMarker rc) = create_retry_response rc"
| "to_json Fallback = create_fallback_response"
| "to_json (ErrorResponse m) = create_error_response m"

text \<open>
  \<open>handle_sse_event\<close>, in the order of its \<open>if\<close>/\<open>elif\<close> chain. With integer counters and
  a decoded event no statement of the \<open>try\<close> block raises (both helpers catch their own
  exceptions), so the \<open>except\<close> branch is not taken.
\<close>

definition handle_sse_event :: "handler \<Rightarrow> json \<Rightarrow> handler \<times> emitted" where
  "handle_sse_event h event_data =
     (if contains_action event_data ''begin_transaction'' then
        (h\<lparr>transaction_state := ACTIVE, retry_count := 0\<rparr>, PassThrough event_data)
      else if contains_action event_data ''rollback_transaction'' then
        (if retry_count h < max_retries h then
           (h\<lparr>transaction_state := RETRYING, retry_count := retry_count h + 1\<rparr>,
            RetryMarker (retry_count h + 1))
         else (h\<lparr>transaction_state := FAILED\<rparr>, Fallback))
      else if contains_action event_data ''commit_transaction'' then
        (h\<lparr>transaction_state := IDLE\<rparr>, PassThrough event_data)
      else if is_stuck_response event_data then
        (if retry_count h < max_retries h then
           (h\<lparr>retry_count := retry_count h + 1\<rparr>, RetryMarker (retry_count h + 1))
         else (h, Fallback))
      else (h, PassThrough event_data))"

text \<open>The dict the Python method returns.\<close>

definition handle_sse_event_json :: "handler \<Rightarrow> json \<Rightarrow> handler \<times> json" where
  "handle_sse_event_json h event_data =
     (let (h', out) = handle_sse_event h event_data in (h', to_json out))"

text \<open>One handler fed the events of a stream in arrival order.\<close>

fun handle_stream :: "handler \<Rightarrow> json list \<Rightarrow> handler \<times> emitted list" where
  "handle_stream h [] = (h, [])"
| "handle_stream h (e # es) =
     (let (h1, out) = handle_sse_event h e;
          (h2, outs) = handle_stream h1 es
      in (h2, out # outs))"

definition action_event :: "string \<Rightarrow> json" where
  "action_event a = JObj [(''client_actions'', JObj [(''actions'', JArr [JStr a])])]"

text \<open>An event with a begin action and a rollback action.\<close>

definition begin_rollback_event :: json where
  "begin_rollback_event =
     JObj [(''client_actions'',
            JObj [(''actions'', JArr [JStr ''begin_transaction'', JStr ''rollback_transaction''])])]"

text \<open>An event with a commit action and the stuck signature in another member.\<close>

definition commit_stuck_event :: json where
  "commit_stuck_event =
     JObj [(''client_actions'', JObj [(''actions'', JArr [JStr ''commit_transaction''])]),
           (''note'', JStr ''update_task_description'')]"

subsection \<open>The risk classifier\<close>

definition zh_create :: string where
  "zh_create =
     [CHR 0xE5, CHR 0x88, CHR 0x9B, CHR 0xE5, CHR 0xBB, CHR 0xBA]"

definition zh_write :: string where
  "zh_write =
     [CHR 0xE5, CHR 0x86, CHR 0x99]"

definition zh_to :: string where
  "zh_to =
     [CHR 0xE5, CHR 0x88, CHR 0xB0]"

definition zh_code :: string where
  "zh_code =
     [CHR 0xE4, CHR 0xBB, CHR 0xA3, CHR 0xE7, CHR 0xA0, CHR 0x81]"

definition zh_modify :: string where
  "zh_modify =
     [CHR 0xE4, CHR 0xBF, CHR 0xAE, CHR 0xE6, CHR 0x94, CHR 0xB9]"

text \<open>
  The fourth pattern of the source is an alternation whose first branch alone carries the
  prefix: \<open>(modify).*?\.py\<close>, or \<open>\.js\<close>, or \<open>\.html\<close>, or \<open>\.ts\<close>, or \<open>\.css\<close>.
\<close>

definition risk_patterns :: "pattern list" where
  "risk_patterns =
     [[[zh_create, kw_file_zh]],
      [[zh_write, zh_to, kw_file_zh]],
      [[kw_save_zh, zh_code]],
      [[zh_modify, ''.py''], [''.js''], [''.html''], [''.ts''], [''.css'']],
      [[''create'', ''file'']],
      [[''write'', ''to'', ''file'']],
      [[''save'', ''code'']],
      [[''implement'', ''in'', ''file'']]]"

text \<open>
  \<open>assess_file_operation_risk\<close>. The score is a multiple of one half divided by twenty;
  it is modelled as a real number, which decides the comparisons of \<open>transform_risky_request\<close>
  as the floating point values do.
\<close>

definition assess_file_operation_risk :: "string \<Rightarrow> real" where
  "assess_file_operation_risk user_message =
     (if user_message = [] then 0
      else
        let pattern_hits = length (filter (\<lambda>p. re_search_ignorecase p user_message) risk_patterns);
            keyword_hits = length (filter (\<lambda>k. str_contains (lower k) (lower user_message))
                                     file_operation_keywords);
            risk_score = real pattern_hits + real keyword_hits / 2
        in min (risk_score / real (length risk_patterns + length file_operation_keywords)) 1)"

text \<open>
  \<open>str.strip()\<close>: the white space of Python, each character in its UTF-8 encoding.
\<close>

definition whitespace :: "string list" where
  "whitespace =
     [[CHR 0x09], [CHR 0x0A], [CHR 0x0B], [CHR 0x0C], [CHR 0x0D],
      [CHR 0x1C], [CHR 0x1D], [CHR 0x1E], [CHR 0x1F], [CHR 0x20],
      [CHR 0xC2, CHR 0x85], [CHR 0xC2, CHR 0xA0], [CHR 0xE1, CHR 0x9A, CHR 0x80], [CHR 0xE2, CHR
      0x80, CHR 0x80], [CHR 0xE2, CHR 0x80, CHR 0x81], [CHR 0xE2, CHR 0x80, CHR 0x82], [CHR
      0xE2, CHR 0x80, CHR 0x83], [CHR 0xE2, CHR 0x80, CHR 0x84], [CHR 0xE2, CHR 0x80, CHR 0x85],
      [CHR 0xE2, CHR 0x80, CHR 0x86], [CHR 0xE2, CHR 0x80, CHR 0x87], [CHR 0xE2, CHR 0x80, CHR
      0x88], [CHR 0xE2, CHR 0x80, CHR 0x89], [CHR 0xE2, CHR 0x80, CHR 0x8A], [CHR 0xE2, CHR
      0x80, CHR 0xA8], [CHR 0xE2, CHR 0x80, CHR 0xA9], [CHR 0xE2, CHR 0x80, CHR 0xAF], [CHR
      0xE2, CHR 0x81, CHR 0x9F], [CHR 0xE3, CHR 0x80, CHR 0x80]]"

function lstrip_tbl :: "string list \<Rightarrow> string \<Rightarrow> string" where
  "lstrip_tbl tbl s =
     (case find (\<lambda>w. w \<noteq> [] \<and> starts_with s w) tbl of
        None \<Rightarrow> s
      | Some w \<Rightarrow> lstrip_tbl tbl (drop (length w) s))"
  by pat_completeness auto
termination
proof (relation "measure (\<lambda>(tbl, s). length s)")
  show "wf (measure (\<lambda>(tbl, s). length s))" by simp
next
  fix tbl :: "string list" and s w :: string
  assume "find (\<lambda>w. w \<noteq> [] \<and> starts_with s w) tbl = Some w"
  then have "w \<noteq> [] \<and> starts_with s w" by (auto simp: find_Some_iff)
  then have "s \<noteq> []" by (cases s; cases w) auto
  with \<open>w \<noteq> [] \<and> starts_with s w\<close>
  show "((tbl, drop (length w) s), (tbl, s)) \<in> measure (\<lambda>(tbl, s). length s)"
    by (cases w) auto
qed

definition strip :: "string \<Rightarrow> string" where
  "strip s = rev (lstrip_tbl (map rev whitespace) (rev (lstrip_tbl whitespace s)))"

definition wrap_prefix :: string where
  "wrap_prefix =
     [CHR 0xE8, CHR 0xAF, CHR 0xB7, CHR 0xE4, CHR 0xB8, CHR 0xBA, CHR 0xE4, CHR 0xBB, CHR 0xA5,
     CHR 0xE4, CHR 0xB8, CHR 0x8B, CHR 0xE9, CHR 0x9C, CHR 0x80, CHR 0xE6, CHR 0xB1, CHR 0x82,
     CHR 0xE6, CHR 0x8F, CHR 0x90, CHR 0xE4, CHR 0xBE, CHR 0x9B, CHR 0xE4, CHR 0xBB, CHR 0xA3,
     CHR 0xE7, CHR 0xA0, CHR 0x81, CHR 0xE7, CHR 0xA4, CHR 0xBA, CHR 0xE4, CHR 0xBE, CHR 0x8B,
     CHR 0xE5, CHR 0x92, CHR 0x8C, CHR 0xE5, CHR 0xAE, CHR 0x9E, CHR 0xE7, CHR 0x8E, CHR 0xB0,
     CHR 0xE5, CHR 0xBB, CHR 0xBA, CHR 0xE8, CHR 0xAE, CHR 0xAE, CHR 0xEF, CHR 0xBC, CHR 0x88,
     CHR 0xE4, CHR 0xBB, CHR 0xA5, CHR 0xE6, CHR 0x95, CHR 0x99, CHR 0xE5, CHR 0xAD, CHR 0xA6,
     CHR 0xE6, CHR 0x96, CHR 0xB9, CHR 0xE5, CHR 0xBC, CHR 0x8F, CHR 0xEF, CHR 0xBC, CHR 0x8C,
     CHR 0xE4, CHR 0xB8, CHR 0x8D, CHR 0xE7, CHR 0x9B, CHR 0xB4, CHR 0xE6, CHR 0x8E, CHR 0xA5,
     CHR 0xE5, CHR 0x88, CHR 0x9B, CHR 0xE5, CHR 0xBB, CHR 0xBA, CHR 0xE6, CHR 0x96, CHR 0x87,
     CHR 0xE4, CHR 0xBB, CHR 0xB6, CHR 0xEF, CHR 0xBC, CHR 0x89, CHR 0xEF, CHR 0xBC, CHR 0x9A,
     CHR 0x0A, CHR 0x0A, CHR 0xE7, CHR 0x94, CHR 0xA8, CHR 0xE6, CHR 0x88, CHR 0xB7, CHR 0xE9,
     CHR 0x9C, CHR 0x80, CHR 0xE6, CHR 0xB1, CHR 0x82, CHR 0xEF, CHR 0xBC, CHR 0x9A]"

definition wrap_suffix :: string where
  "wrap_suffix =
     [CHR 0x0A, CHR 0x0A, CHR 0xE8, CHR 0xAF, CHR 0xB7, CHR 0xE8, CHR 0xAF, CHR 0xA6, CHR 0xE7,
     CHR 0xBB, CHR 0x86, CHR 0xE8, CHR 0xA7, CHR 0xA3, CHR 0xE9, CHR 0x87, CHR 0x8A, CHR 0xE5,
     CHR 0xAE, CHR 0x9E, CHR 0xE7, CHR 0x8E, CHR 0xB0, CHR 0xE6, CHR 0xAD, CHR 0xA5, CHR 0xE9,
     CHR 0xAA, CHR 0xA4, CHR 0xEF, CHR 0xBC, CHR 0x8C, CHR 0xE5, CHR 0xB9, CHR 0xB6, CHR 0xE6,
     CHR 0x8F, CHR 0x90, CHR 0xE4, CHR 0xBE, CHR 0x9B, CHR 0xE5, CHR 0xAE, CHR 0x8C, CHR 0xE6,
     CHR 0x95, CHR 0xB4, CHR 0xE7, CHR 0x9A, CHR 0x84, CHR 0xE4, CHR 0xBB, CHR 0xA3, CHR 0xE7,
     CHR 0xA0, CHR 0x81, CHR 0xE7, CHR 0xA4, CHR 0xBA, CHR 0xE4, CHR 0xBE, CHR 0x8B, CHR 0xE3,
     CHR 0x80, CHR 0x82]"

definition advisory_suffix :: string where
  "advisory_suffix =
     [CHR 0x0A, CHR 0x0A, CHR 0xE8, CHR 0xAF, CHR 0xB7, CHR 0xE6, CHR 0xB3, CHR 0xA8, CHR 0xE6,
     CHR 0x84, CHR 0x8F, CHR 0xEF, CHR 0xBC, CHR 0x9A, CHR 0xE6, CHR 0x88, CHR 0x91, CHR 0xE4,
     CHR 0xBC, CHR 0x9A, CHR 0xE4, CHR 0xBB, CHR 0xA5, CHR 0xE4, CHR 0xBB, CHR 0xA3, CHR 0xE7,
     CHR 0xA0, CHR 0x81, CHR 0xE7, CHR 0xA4, CHR 0xBA, CHR 0xE4, CHR 0xBE, CHR 0x8B, CHR 0xE7,
     CHR 0x9A, CHR 0x84, CHR 0xE5, CHR 0xBD, CHR 0xA2, CHR 0xE5, CHR 0xBC, CHR 0x8F, CHR 0xE4,
     CHR 0xB8, CHR 0xBA, CHR 0xE6, CHR 0x82, CHR 0xA8, CHR 0xE6, CHR 0x8F, CHR 0x90, CHR 0xE4,
     CHR 0xBE, CHR 0x9B, CHR 0xE8, CHR 0xA7, CHR 0xA3, CHR 0xE5, CHR 0x86, CHR 0xB3, CHR 0xE6,
     CHR 0x96, CHR 0xB9, CHR 0xE6, CHR 0xA1, CHR 0x88, CHR 0xE3, CHR 0x80, CHR 0x82]"

text \<open>
  \<open>transform_risky_request\<close>. Both templates are stripped after the message has been put
  in. The first starts and ends with fixed text, so the strip removes the template's own
  line break and indentation only; the second starts with the message.
\<close>

definition transform_risky_request :: "string \<Rightarrow> real \<Rightarrow> string" where
  "transform_risky_request user_message risk_score =
     (if risk_score > 7 / 10 then wrap_prefix @ user_message @ wrap_suffix
      else if risk_score > 4 / 10 then
        strip ([CHR 0x0A] @ user_message @ advisory_suffix @ [CHR 0x0A] @ replicate 12 CHR '' '')
      else user_message)"

definition scenario_message :: string where
  "scenario_message =
     [CHR 0xE8, CHR 0xAF, CHR 0xB7, CHR 0xE5, CHR 0x88, CHR 0x9B, CHR 0xE5, CHR 0xBB, CHR 0xBA,
     CHR 0xE6, CHR 0x96, CHR 0x87, CHR 0xE4, CHR 0xBB, CHR 0xB6] @ '' foo.py '' @ [CHR 0xE5, CHR
     0xB9, CHR 0xB6, CHR 0xE5, CHR 0x86, CHR 0x99, CHR 0xE5, CHR 0x85, CHR 0xA5, CHR 0xE4, CHR
     0xBB, CHR 0xA3, CHR 0xE7, CHR 0xA0, CHR 0x81]"

subsection \<open>Classifying what a stream emitted\<close>

fun is_retry_marker :: "emitted \<Rightarrow> bool" where
  "is_retry_marker (RetryMarker rc) = True"
| "is_retry_marker _ = False"

fun is_pass_through :: "emitted \<Rightarrow> bool" where
  "is_pass_through (PassThrough e) = True"
| "is_pass_through _ = False"

definition is_synthesized :: "emitted \<Rightarrow> bool" where
  "is_synthesized out = (\<not> is_pass_through out)"

definition count_retries :: "emitted list \<Rightarrow> nat" where
  "count_retries outs = length (filter is_retry_marker outs)"

definition count_begin :: "json list \<Rightarrow> nat" where
  "count_begin evs = length (filter (\<lambda>e. contains_action e ''begin_transaction'') evs)"

text \<open>
  The branch of \<open>handle_sse_event\<close> an event takes: the rollback branch is reached by an
  event with a rollback action and no begin action, the stuck branch by an event with none
  of the three transaction actions that has the stuck signature.
\<close>

definition takes_rollback_branch :: "json \<Rightarrow> bool" where
  "takes_rollback_branch e =
     (\<not> contains_action e ''begin_transaction'' \<and> contains_action e ''rollback_transaction'')"

definition takes_stuck_branch :: "json \<Rightarrow> bool" where
  "takes_stuck_branch e =
     (\<not> contains_action e ''begin_transaction'' \<and> \<not> contains_action e ''rollback_transaction''
      \<and> \<not> contains_action e ''commit_transaction'' \<and> is_stuck_response e)"

section \<open>Token management (\<open>warp2protobuf/core/auth.py\<close>)\<close>

subsection \<open>Decoding a token\<close>

text \<open>\<open>s.split(sep)\<close> for a one-character separator; the result is never empty.\<close>

fun split_on :: "char \<Rightarrow> string \<Rightarrow> string list" where
  "split_on sep [] = [[]]"
| "split_on sep (c # cs) =
     (if c = sep then [] # split_on sep cs
      else (case split_on sep cs of
              [] \<Rightarrow> [[c]]
            | p # ps \<Rightarrow> (c # p) # ps))"

definition is_ascii :: "string \<Rightarrow> bool" where
  "is_ascii s = (\<forall>c \<in> set s. (of_char c :: nat) < 128)"

text \<open>
  The two library calls of \<open>decode_jwt_payload\<close> are parameters: \<open>urlsafe_b64decode\<close> is
  \<open>base64.urlsafe_b64decode\<close>, and \<open>json_loads\<close> is \<open>bytes.decode('utf-8')\<close> followed by
  \<open>json.loads\<close>; \<open>None\<close> stands for the exception either raises.
\<close>

record libs =
  urlsafe_b64decode :: "string \<Rightarrow> string option"
  json_loads :: "string \<Rightarrow> json option"

text \<open>
  \<open>decode_jwt_payload\<close>. Every exception is caught and gives the empty dict. The base64
  decoder refuses a segment that is not ASCII whatever its padding, which is the one case
  where the length in bytes differs from the length Python counts.
\<close>

definition decode_jwt_payload :: "libs \<Rightarrow> string \<Rightarrow> json" where
  "decode_jwt_payload L token =
     (case split_on CHR ''.'' token of
        [header, payload_b64, signature] \<Rightarrow>
          if \<not> is_ascii payload_b64 then JObj []
          else
            let padding = 4 - length payload_b64 mod 4;
                padded = (if padding \<noteq> 4 then payload_b64 @ replicate padding CHR ''=''
                          else payload_b64)
            in (case urlsafe_b64decode L padded of
                  None \<Rightarrow> JObj []
                | Some payload_bytes \<Rightarrow>
                    (case json_loads L payload_bytes of
                       None \<Rightarrow> JObj []
                     | Some payload \<Rightarrow> payload))
      | _ \<Rightarrow> JObj [])"

text \<open>
  The left operand of \<open>v - current_time\<close> for a decoded value \<open>v\<close>. The clock is a
  float, so an integer is converted to a float first: that raises an \<open>OverflowError\<close>
  from \<open>2 ^ 1024 - 2 ^ 970\<close> on (in absolute value), the first integer that rounds
  beyond the largest float. A bool is an \<open>int\<close> in Python; any other value raises a
  \<open>TypeError\<close>. The clock and the difference are real numbers here: the rounding of
  the conversion and of the subtraction is not modelled, and a fractional \<open>exp\<close> has no
  value in \<open>json\<close>.
\<close>

definition float_limit :: int where
  "float_limit = 2 ^ 1024 - 2 ^ 970"

fun as_number :: "json \<Rightarrow> py_error + real" where
  "as_number (JInt i) =
     (if float_limit \<le> \<bar>i\<bar> then Inl OverflowError else Inr (real_of_int i))"
| "as_number (JBool b) = Inr (if b then 1 else 0)"
| "as_number _ = Inl TypeError"

text \<open>\<open>v[k]\<close> for a string key: the member of a dict, an exception on any other value.\<close>

fun subscript :: "json \<Rightarrow> string \<Rightarrow> py_error + json" where
  "subscript (JObj kvs) k = (case map_of kvs k of None \<Rightarrow> Inl KeyError | Some v \<Rightarrow> Inr v)"
| "subscript _ k = Inl TypeError"

text \<open>
  \<open>is_token_expired\<close>, with the clock reading \<open>now\<close> of \<open>time.time()\<close>. The function has
  no \<open>try\<close> of its own: a payload that cannot be searched for \<open>exp\<close>, cannot be indexed
  or holds an \<open>exp\<close> that is no number or too large a number raises.
\<close>

definition is_token_expired :: "libs \<Rightarrow> real \<Rightarrow> string \<Rightarrow> int \<Rightarrow> py_error + bool" where
  "is_token_expired L now token buffer_minutes =
     (let payload = decode_jwt_payload L token in
      if \<not> truthy payload then Inr True
      else
        (case py_in ''exp'' payload of
           None \<Rightarrow> Inl TypeError
         | Some False \<Rightarrow> Inr True
         | Some True \<Rightarrow>
             (case subscript payload ''exp'' of
                Inl e \<Rightarrow> Inl e
              | Inr expiry_time \<Rightarrow>
                  (case as_number expiry_time of
                     Inl e \<Rightarrow> Inl e
                   | Inr t \<Rightarrow> Inr (t - now \<le> real_of_int (buffer_minutes * 60))))))"

text \<open>
  The callers pass whatever the response held as \<open>access_token\<close>. A value that is no
  string has no \<open>split\<close>; \<open>decode_jwt_payload\<close> catches that and the token counts as
  expired.
\<close>

definition is_token_expired_value :: "libs \<Rightarrow> real \<Rightarrow> json \<Rightarrow> int \<Rightarrow> py_error + bool" where
  "is_token_expired_value L now v buffer_minutes =
     (case v of JStr token \<Rightarrow> is_token_expired L now token buffer_minutes | _ \<Rightarrow> Inr True)"

subsection \<open>The process environment, the secrets file and the accounts files\<close>

text \<open>
  A file holding JSON is modelled by the value \<open>json.load\<close> reads from it, and
  \<open>json.dump\<close> writes the content that reads back as the value dumped; \<open>Unreadable\<close> is a
  file on which opening or parsing raises.
\<close>

datatype file_content = Doc json | Unreadable

text \<open>
  \<open>environ\<close> is \<open>os.environ\<close> and \<open>dotenv\<close> the key/value lines of \<open>.env\<close>.
  \<open>dotenv_writable\<close> tells whether \<open>set_key\<close> can rewrite \<open>.env\<close>, and \<open>can_write p\<close>
  whether \<open>p\<close> can be created and opened for writing once its directory is named.
\<close>

record world =
  environ :: "string \<rightharpoonup> string"
  dotenv :: "string \<rightharpoonup> string"
  dotenv_writable :: bool
  files :: "string \<rightharpoonup> file_content"
  can_write :: "string \<Rightarrow> bool"

text \<open>
  \<open>dotenv.set_key\<close>: \<open>None\<close> when it raises, which it does on a value that is no string
  (it calls \<open>replace\<close> on it) and when the file cannot be written.
\<close>

definition set_key :: "world \<Rightarrow> string \<Rightarrow> json \<Rightarrow> world option" where
  "set_key w k v =
     (case v of
        JStr s \<Rightarrow> if dotenv_writable w then Some (w\<lparr>dotenv := (dotenv w)(k \<mapsto> s)\<rparr>) else None
      | _ \<Rightarrow> None)"

definition update_env :: "string \<Rightarrow> json \<Rightarrow> world \<Rightarrow> world \<times> bool" where
  "update_env k v w = (case set_key w k v of None \<Rightarrow> (w, False) | Some w' \<Rightarrow> (w', True))"

definition update_env_file :: "json \<Rightarrow> world \<Rightarrow> world \<times> bool" where
  "update_env_file new_jwt w = update_env ''WARP_JWT'' new_jwt w"

definition update_env_id_token :: "json \<Rightarrow> world \<Rightarrow> world \<times> bool" where
  "update_env_id_token id_token w = update_env ''WARP_ID_TOKEN'' id_token w"

definition update_env_refresh_token :: "json \<Rightarrow> world \<Rightarrow> world \<times> bool" where
  "update_env_refresh_token refresh_token w = update_env ''WARP_REFRESH_TOKEN'' refresh_token w"

subsection \<open>The upstream services\<close>

text \<open>
  A response as the code reads it: the status, the body text, and what \<open>response.json()\<close>
  gives (\<open>None\<close> when it raises). \<open>Failed\<close> is a request on which the HTTP client raises.
\<close>

record response =
  status_code :: nat
  body_text :: string
  json_body :: "json option"

datatype http_result = Failed | Response response

text \<open>
  A request to the token endpoint carries a refresh token, or the baked-in payload of
  \<open>REFRESH_TOKEN_B64\<close>. Each service answers as a function of the request it is sent.
\<close>

datatype token_request = BakedIn | WithRefresh json

record upstream =
  token_endpoint :: "token_request \<Rightarrow> http_result"
  create_anonymous_user :: http_result
  sign_in_with_custom_token :: "json \<Rightarrow> http_result"

subsection \<open>Refreshing with the refresh token\<close>

definition error_result :: "string \<Rightarrow> json" where
  "error_result error_type = JObj [(''error_type'', JStr error_type)]"

text \<open>The error type of a response whose status is not 200.\<close>

definition classify_error :: "nat \<Rightarrow> string \<Rightarrow> string" where
  "classify_error status txt =
     (let response_text = lower txt in
      if status = 401 then ''invalid_token''
      else if status = 429 then
        (if str_contains ''no remaining quota'' response_text
            \<or> str_contains ''no ai requests remaining'' response_text
         then ''quota_exhausted'' else ''refresh_failed'')
      else if str_contains ''invalid_grant'' response_text
            \<or> str_contains ''invalid_token'' response_text then ''invalid_token''
      else if str_contains ''refresh token is invalid'' response_text then ''invalid_token''
      else ''refresh_failed'')"

definition refresh_request :: "world \<Rightarrow> token_request" where
  "refresh_request w =
     (case environ w ''WARP_REFRESH_TOKEN'' of
        None \<Rightarrow> BakedIn
      | Some env_refresh \<Rightarrow> if env_refresh = [] then BakedIn else WithRefresh (JStr env_refresh))"

text \<open>
  \<open>refresh_jwt_token\<close>: the new world and the dict returned. On status 200 the identity
  token is written before the function returns; the access token is left to the caller.
  Every exception of the request and of the handling of the response is caught.
\<close>

definition refresh_jwt_token :: "upstream \<Rightarrow> world \<Rightarrow> world \<times> json" where
  "refresh_jwt_token up w =
     (case token_endpoint up (refresh_request w) of
        Failed \<Rightarrow> (w, error_result ''refresh_failed'')
      | Response r \<Rightarrow>
          if status_code r = 200 then
            (case json_body r of
               None \<Rightarrow> (w, error_result ''refresh_failed'')
             | Some token_data \<Rightarrow>
                 (case py_in ''id_token'' token_data of
                    None \<Rightarrow> (w, error_result ''refresh_failed'')
                  | Some False \<Rightarrow> (w, token_data)
                  | Some True \<Rightarrow>
                      (case subscript token_data ''id_token'' of
                         Inl e \<Rightarrow> (w, error_result ''refresh_failed'')
                       | Inr id_token \<Rightarrow> (fst (update_env_id_token id_token w), token_data))))
          else (w, error_result (classify_error (status_code r) (body_text r))))"

text \<open>
  \<open>check_and_refresh_token\<close> refreshes with the refresh token at two places. The first
  is taken when the environment has no \<open>WARP_JWT\<close>: the new token is written as it
  comes, with no test of its expiry. An exception here is not caught.
\<close>

definition first_token_refresh :: "upstream \<Rightarrow> world \<Rightarrow> world \<times> (py_error + bool)" where
  "first_token_refresh up w =
     (let (w1, token_data) = refresh_jwt_token up w in
      if \<not> truthy token_data then (w1, Inr False)
      else
        (case py_in ''access_token'' token_data of
           None \<Rightarrow> (w1, Inl TypeError)
         | Some False \<Rightarrow> (w1, Inr False)
         | Some True \<Rightarrow>
             (case subscript token_data ''access_token'' of
                Inl e \<Rightarrow> (w1, Inl e)
              | Inr new_jwt \<Rightarrow>
                  (let (w2, ok) = update_env_file new_jwt w1 in (w2, Inr ok)))))"

text \<open>
  The second is the last step of the function, taken when the current token is expired or
  the quota is low and no other way has given a token (the plain token refresh): the new
  token is written only when it is not already expired. An exception here is not caught.
\<close>

definition plain_token_refresh ::
  "libs \<Rightarrow> real \<Rightarrow> upstream \<Rightarrow> world \<Rightarrow> world \<times> (py_error + bool)" where
  "plain_token_refresh L now up w =
     (let (w1, token_data) = refresh_jwt_token up w in
      if \<not> truthy token_data then (w1, Inr False)
      else
        (case py_in ''access_token'' token_data of
           None \<Rightarrow> (w1, Inl TypeError)
         | Some False \<Rightarrow> (w1, Inr False)
         | Some True \<Rightarrow>
             (case subscript token_data ''access_token'' of
                Inl e \<Rightarrow> (w1, Inl e)
              | Inr new_jwt \<Rightarrow>
                  (case is_token_expired_value L now new_jwt 0 of
                     Inl e \<Rightarrow> (w1, Inl e)
                   | Inr True \<Rightarrow> (w1, Inr False)
                   | Inr False \<Rightarrow>
                       (let (w2, ok) = update_env_file new_jwt w1 in (w2, Inr ok))))))"

subsection \<open>The accounts file\<close>

text \<open>\<open>os.path.dirname\<close> on a POSIX path.\<close>

definition dirname :: "string \<Rightarrow> string" where
  "dirname p =
     (let head = rev (dropWhile (\<lambda>c. c \<noteq> CHR ''/'') (rev p)) in
      if head \<noteq> [] \<and> (\<exists>c \<in> set head. c \<noteq> CHR ''/'')
        then rev (dropWhile (\<lambda>c. c = CHR ''/'') (rev head))
      else head)"

text \<open>
  \<open>save_accounts_to_file\<close>. \<open>os.makedirs\<close> raises on the empty directory name of a path
  without a slash; that exception, like any other of the write, is caught and gives
  \<open>False\<close> with nothing written.
\<close>

definition save_accounts_to_file :: "string \<Rightarrow> json \<Rightarrow> world \<Rightarrow> world \<times> bool" where
  "save_accounts_to_file file_path accounts w =
     (if dirname file_path = [] then (w, False)
      else if \<not> can_write w file_path then (w, False)
      else (w\<lparr>files := (files w)(file_path \<mapsto> Doc accounts)\<rparr>, True))"

text \<open>\<open>d[k] = v\<close> on the members of a dict: a known key keeps its place.\<close>

fun dict_set :: "(string \<times> json) list \<Rightarrow> string \<Rightarrow> json \<Rightarrow> (string \<times> json) list" where
  "dict_set [] k v = [(k, v)]"
| "dict_set ((k', v') # kvs) k v =
     (if k' = k then (k, v) # kvs else (k', v') # dict_set kvs k v)"

text \<open>
  The loop of \<open>load_accounts_from_file\<close> that gives each account a status: the accounts
  after the loop and whether one was changed, or \<open>None\<close> when the loop raises (an account
  that cannot be searched for the key, or that is no dict and lacks it).
\<close>

fun init_status :: "json list \<Rightarrow> (json list \<times> bool) option" where
  "init_status [] = Some ([], False)"
| "init_status (account # rest) =
     (case py_in ''account_status'' account of
        None \<Rightarrow> None
      | Some True \<Rightarrow>
          (case init_status rest of
             None \<Rightarrow> None
           | Some (rest', updated) \<Rightarrow> Some (account # rest', updated))
      | Some False \<Rightarrow>
          (case account of
             JObj kvs \<Rightarrow>
               (case init_status rest of
                  None \<Rightarrow> None
                | Some (rest', updated) \<Rightarrow>
                    Some (JObj (dict_set kvs ''account_status'' (JStr ''available'')) # rest', True))
           | _ \<Rightarrow> None))"

text \<open>
  \<open>load_accounts_from_file\<close>: a missing file, a file that cannot be read, a document that
  is no array and an exception of the loop all give the empty list. When a status was
  added the file is rewritten, and the result of that write is not looked at.
\<close>

definition load_accounts_from_file :: "string \<Rightarrow> world \<Rightarrow> world \<times> json list" where
  "load_accounts_from_file file_path w =
     (case files w file_path of
        None \<Rightarrow> (w, [])
      | Some Unreadable \<Rightarrow> (w, [])
      | Some (Doc (JArr accounts)) \<Rightarrow>
          (case init_status accounts of
             None \<Rightarrow> (w, [])
           | Some (accounts', updated) \<Rightarrow>
               if updated then (fst (save_accounts_to_file file_path (JArr accounts') w), accounts')
               else (w, accounts'))
      | Some (Doc _) \<Rightarrow> (w, []))"

text \<open>\<open>v.get(k, default)\<close>: an \<open>AttributeError\<close> on a value that is no dict.\<close>

fun py_get :: "json \<Rightarrow> string \<Rightarrow> json \<Rightarrow> py_error + json" where
  "py_get (JObj kvs) k dflt = Inr (dict_get kvs k dflt)"
| "py_get _ k dflt = Inl AttributeError"

text \<open>
  The scan of \<open>get_current_account_from_file\<close>: the first account with a refresh token
  and the status \<open>available\<close>.
\<close>

fun first_available :: "json list \<Rightarrow> py_error + json option" where
  "first_available [] = Inr None"
| "first_available (account # rest) =
     (case py_get account ''refresh_token'' JNull of
        Inl e \<Rightarrow> Inl e
      | Inr rt \<Rightarrow>
          if truthy rt
             \<and> py_get account ''account_status'' (JStr ''available'') = Inr (JStr ''available'')
          then Inr (Some account)
          else first_available rest)"

definition get_current_account_from_file :: "string \<Rightarrow> world \<Rightarrow> world \<times> (py_error + json)" where
  "get_current_account_from_file file_path w =
     (let (w1, accounts) = load_accounts_from_file file_path w in
      if accounts = [] then (w1, Inr (JObj []))
      else
        (case first_available accounts of
           Inl e \<Rightarrow> (w1, Inl e)
         | Inr None \<Rightarrow> (w1, Inr (JObj []))
         | Inr (Some account) \<Rightarrow> (w1, Inr account)))"

text \<open>
  The loop of \<open>update_account_status\<close>: the accounts with the status of the first one
  whose email matches replaced, \<open>Inr None\<close> when none matches. Emails are compared as
  decoded values; Python's \<open>==\<close> agrees with that on strings, and differs only in
  taking \<open>True\<close> and \<open>1\<close> (\<open>False\<close> and \<open>0\<close>) for equal.
\<close>

fun set_status :: "json list \<Rightarrow> json \<Rightarrow> json \<Rightarrow> py_error + json list option" where
  "set_status [] email status = Inr None"
| "set_status (account # rest) email status =
     (case account of
        JObj kvs \<Rightarrow>
          if dict_get kvs ''email'' JNull = email
            then Inr (Some (JObj (dict_set kvs ''account_status'' status) # rest))
          else
            (case set_status rest email status of
               Inl e \<Rightarrow> Inl e
             | Inr None \<Rightarrow> Inr None
             | Inr (Some rest') \<Rightarrow> Inr (Some (account # rest')))
      | _ \<Rightarrow> Inl AttributeError)"

definition update_account_status :: "string \<Rightarrow> json \<Rightarrow> json \<Rightarrow> world \<Rightarrow> world \<times> bool" where
  "update_account_status file_path email status w =
     (let (w1, accounts) = load_accounts_from_file file_path w in
      if accounts = [] then (w1, False)
      else
        (case set_status accounts email status of
           Inl e \<Rightarrow> (w1, False)
         | Inr None \<Rightarrow> (w1, False)
         | Inr (Some accounts') \<Rightarrow> save_accounts_to_file file_path (JArr accounts') w1))"

subsection \<open>Refreshing from the accounts file\<close>

text \<open>
  The \<open>try\<close> block of \<open>refresh_from_file\<close> once the token data is there: the new world
  and the result, or \<open>Inl\<close> for an exception, which the caller's \<open>except\<close> turns into the
  status \<open>refresh_failed\<close>.
\<close>

definition use_token_data ::
  "libs \<Rightarrow> real \<Rightarrow> string \<Rightarrow> json \<Rightarrow> json \<Rightarrow> json \<Rightarrow> world \<Rightarrow> py_error + world \<times> bool" where
  "use_token_data L now file_path email refresh_token token_data w =
     (case (if truthy token_data then py_in ''access_token'' token_data else Some False) of
        None \<Rightarrow> Inl TypeError
      | Some True \<Rightarrow>
          (case subscript token_data ''access_token'' of
             Inl e \<Rightarrow> Inl e
           | Inr new_jwt \<Rightarrow>
               (case is_token_expired_value L now new_jwt 0 of
                  Inl e \<Rightarrow> Inl e
                | Inr False \<Rightarrow>
                    (let w1 = fst (update_env_refresh_token refresh_token w);
                         w2 = fst (update_account_status file_path email (JStr ''available'') w1)
                     in Inr (update_env_file new_jwt w2))
                | Inr True \<Rightarrow>
                    Inr (fst (update_account_status file_path email (JStr ''invalid_token'') w),
                         False)))
      | Some False \<Rightarrow>
          (case (if truthy token_data then py_in ''error_type'' token_data else Some False) of
             None \<Rightarrow> Inl TypeError
           | Some True \<Rightarrow>
               (case subscript token_data ''error_type'' of
                  Inl e \<Rightarrow> Inl e
                | Inr error_type \<Rightarrow>
                    Inr (fst (update_account_status file_path email error_type w), False))
           | Some False \<Rightarrow>
               Inr (fst (update_account_status file_path email (JStr ''refresh_failed'') w),
                    False)))"

text \<open>
  \<open>refresh_from_file\<close>. The account's refresh token is put into \<open>os.environ\<close>, which
  takes strings only, before the \<open>try\<close> block; the scan of the accounts is outside it
  too.
\<close>

definition refresh_from_file ::
  "libs \<Rightarrow> real \<Rightarrow> upstream \<Rightarrow> string \<Rightarrow> world \<Rightarrow> world \<times> (py_error + bool)" where
  "refresh_from_file L now up file_path w =
     (let (w1, found) = get_current_account_from_file file_path w in
      case found of
        Inl e \<Rightarrow> (w1, Inl e)
      | Inr account \<Rightarrow>
          (case account of
             JObj kvs \<Rightarrow>
               (let refresh_token = dict_get kvs ''refresh_token'' JNull;
                    email = dict_get kvs ''email'' (JStr ''unknown'')
                in if \<not> truthy account \<or> \<not> truthy refresh_token then (w1, Inr False)
                   else
                     (case refresh_token of
                        JStr rt \<Rightarrow>
                          (let w2 = w1\<lparr>environ := (environ w1)(''WARP_REFRESH_TOKEN'' \<mapsto> rt)\<rparr>;
                               (w3, token_data) = refresh_jwt_token up w2
                           in case use_token_data L now file_path email refresh_token token_data w3 of
                                Inr (w4, ok) \<Rightarrow> (w4, Inr ok)
                              | Inl e \<Rightarrow>
                                  (fst (update_account_status file_path email
                                          (JStr ''refresh_failed'') w3),
                                   Inr False))
                      | _ \<Rightarrow> (w1, Inl TypeError)))
           | _ \<Rightarrow> (w1, Inl AttributeError)))"

subsection \<open>Acquiring an anonymous token\<close>

text \<open>
  \<open>data["data"]["createAnonymousUser"].get("idToken")\<close> inside its \<open>try\<close>: \<open>JNull\<close>
  (Python's \<open>None\<close>) when any step raises.
\<close>

definition extract_id_token :: "json \<Rightarrow> json" where
  "extract_id_token data =
     (case subscript data ''data'' of
        Inl e \<Rightarrow> JNull
      | Inr d \<Rightarrow>
          (case subscript d ''createAnonymousUser'' of
             Inl e \<Rightarrow> JNull
           | Inr u \<Rightarrow> (case py_get u ''idToken'' JNull of Inl e \<Rightarrow> JNull | Inr t \<Rightarrow> t)))"

text \<open>
  A helper that posts and returns \<open>resp.json()\<close>: it raises on a failed request, on a
  status other than 200 and on a body that does not parse.
\<close>

definition json_of_200 :: "http_result \<Rightarrow> py_error + json" where
  "json_of_200 res =
     (case res of
        Failed \<Rightarrow> Inl HTTPError
      | Response r \<Rightarrow>
          if status_code r \<noteq> 200 then Inl RuntimeError
          else (case json_body r of None \<Rightarrow> Inl ValueError | Some j \<Rightarrow> Inr j))"

text \<open>
  \<open>acquire_anonymous_access_token\<close>: the world it leaves and the access token, or the
  exception it raises. The refresh token is written before the token endpoint is asked;
  the results of both writes are not looked at.
\<close>

definition acquire_anonymous_access_token :: "upstream \<Rightarrow> world \<Rightarrow> world \<times> (py_error + json)" where
  "acquire_anonymous_access_token up w =
     (case json_of_200 (create_anonymous_user up) of
        Inl e \<Rightarrow> (w, Inl e)
      | Inr data \<Rightarrow>
          (let id_token = extract_id_token data in
           if \<not> truthy id_token then (w, Inl RuntimeError)
           else
             (case json_of_200 (sign_in_with_custom_token up id_token) of
                Inl e \<Rightarrow> (w, Inl e)
              | Inr signin \<Rightarrow>
                  (case py_get signin ''refreshToken'' JNull of
                     Inl e \<Rightarrow> (w, Inl e)
                   | Inr refresh_token \<Rightarrow>
                       if \<not> truthy refresh_token then (w, Inl RuntimeError)
                       else
                         (let w1 = fst (update_env_refresh_token refresh_token w) in
                          case json_of_200 (token_endpoint up (WithRefresh refresh_token)) of
                            Inl e \<Rightarrow> (w1, Inl e)
                          | Inr token_data \<Rightarrow>
                              (case py_get token_data ''access_token'' JNull of
                                 Inl e \<Rightarrow> (w1, Inl e)
                               | Inr access \<Rightarrow>
                                   if \<not> truthy access then (w1, Inl RuntimeError)
                                   else (fst (update_env_file access w1), Inr access)))))))"

section \<open>Notions used to state the properties\<close>

subsection \<open>Accounts\<close>

definition is_account_record :: "json \<Rightarrow> bool" where
  "is_account_record a = (case a of JObj kvs \<Rightarrow> True | _ \<Rightarrow> False)"

text \<open>
  The status default as the specification words it: an account without a status gets the
  status \<open>available\<close>, any other account is left as it is.
\<close>

definition materialize_status :: "json \<Rightarrow> json" where
  "materialize_status a =
     (case a of
        JObj kvs \<Rightarrow>
          if ''account_status'' \<in> fst ` set kvs then a
          else JObj (kvs @ [(''account_status'', JStr ''available'')])
      | _ \<Rightarrow> a)"

definition has_status :: "json \<Rightarrow> bool" where
  "has_status a = (py_in ''account_status'' a = Some True)"

subsection \<open>Library behaviour given by a table\<close>

text \<open>
  A stand-in for the two library calls on finitely many inputs: the decoder knows the
  padded segments of the first table and the parser the byte strings of the second; both
  raise on anything else.
\<close>

definition table_libs :: "(string \<times> string) list \<Rightarrow> (string \<times> json) list \<Rightarrow> libs" where
  "table_libs decoded parsed = \<lparr>urlsafe_b64decode = map_of decoded, json_loads = map_of parsed\<rparr>"

definition number_libs :: libs where
  "number_libs = table_libs [(''NQ=='', ''5'')] [(''5'', JInt 5)]"

subsection \<open>Worlds\<close>

definition scenario_world :: world where
  "scenario_world =
     \<lparr>environ = Map.empty, dotenv = Map.empty, dotenv_writable = True,
      files = Map.empty, can_write = (\<lambda>p. True)\<rparr>"

definition account_a :: json where
  "account_a = JObj [(''email'', JStr ''a''), (''refresh_token'', JStr ''ra'')]"

definition account_b :: json where
  "account_b =
     JObj [(''email'', JStr ''b''), (''refresh_token'', JStr ''rb''),
           (''account_status'', JStr ''quota_exhausted'')]"


subsection \<open>What the token endpoint issued\<close>

text \<open>
  \<open>issues up req a\<close>: the token endpoint answers the request with status 200 and a JSON
  object whose \<open>access_token\<close> is \<open>a\<close>. \<open>issued_id_token\<close> is the \<open>id_token\<close> of such an
  answer when it is a string.
\<close>

definition issues :: "upstream \<Rightarrow> token_request \<Rightarrow> json \<Rightarrow> bool" where
  "issues up req a =
     (case token_endpoint up req of
        Failed \<Rightarrow> False
      | Response r \<Rightarrow>
          status_code r = 200
          \<and> (case json_body r of
               Some (JObj kvs) \<Rightarrow> map_of kvs ''access_token'' = Some a
             | _ \<Rightarrow> False))"

definition issued_id_token :: "upstream \<Rightarrow> token_request \<Rightarrow> string option" where
  "issued_id_token up req =
     (case token_endpoint up req of
        Failed \<Rightarrow> None
      | Response r \<Rightarrow>
          if status_code r = 200 then
            (case json_body r of
               Some (JObj kvs) \<Rightarrow>
                 (case map_of kvs ''id_token'' of Some (JStr i) \<Rightarrow> Some i | _ \<Rightarrow> None)
             | _ \<Rightarrow> None)
          else None)"

text \<open>
  After the step from \<open>w\<close> to \<open>w'\<close> the secrets file holds the access token issued for
  the request, and the identity token of the same answer when it carried one (the old
  identity token stays otherwise).
\<close>

definition session_persisted :: "upstream \<Rightarrow> token_request \<Rightarrow> world \<Rightarrow> world \<Rightarrow> bool" where
  "session_persisted up req w w' =
     ((case dotenv w' ''WARP_JWT'' of None \<Rightarrow> False | Some a \<Rightarrow> issues up req (JStr a))
      \<and> dotenv w' ''WARP_ID_TOKEN''
          = (case issued_id_token up req of
               None \<Rightarrow> dotenv w ''WARP_ID_TOKEN''
             | Some i \<Rightarrow> Some i))"

text \<open>The two patterns of the specification's response mapping, on the lower-cased body.\<close>

definition quota_text :: "string \<Rightarrow> bool" where
  "quota_text txt =
     (str_contains ''no remaining quota'' (lower txt)
      \<or> str_contains ''no ai requests remaining'' (lower txt))"

definition invalid_text :: "string \<Rightarrow> bool" where
  "invalid_text txt =
     (str_contains ''invalid_grant'' (lower txt)
      \<or> str_contains ''invalid_token'' (lower txt)
      \<or> str_contains ''refresh token is invalid'' (lower txt))"

subsection \<open>Upstreams and tokens of the scenarios\<close>

definition ok_response :: "json \<Rightarrow> http_result" where
  "ok_response j = Response \<lparr>status_code = 200, body_text = dumps j, json_body = Some j\<rparr>"

definition error_response :: "nat \<Rightarrow> string \<Rightarrow> http_result" where
  "error_response status txt = Response \<lparr>status_code = status, body_text = txt, json_body = None\<rparr>"

text \<open>An upstream whose token endpoint gives one answer to every request.\<close>

definition token_upstream :: "http_result \<Rightarrow> upstream" where
  "token_upstream res =
     \<lparr>token_endpoint = (\<lambda>req. res), create_anonymous_user = Failed,
      sign_in_with_custom_token = (\<lambda>t. Failed)\<rparr>"

text \<open>
  An upstream that creates the anonymous user and signs it in with the refresh token
  \<open>R2\<close>, and whose token endpoint gives one answer to every request.
\<close>

definition anonymous_upstream :: "http_result \<Rightarrow> upstream" where
  "anonymous_upstream res =
     \<lparr>token_endpoint = (\<lambda>req. res),
      create_anonymous_user =
        ok_response (JObj [(''data'', JObj [(''createAnonymousUser'',
                             JObj [(''idToken'', JStr ''I2'')])])]),
      sign_in_with_custom_token = (\<lambda>t. ok_response (JObj [(''refreshToken'', JStr ''R2'')]))\<rparr>"

text \<open>A token that expires at 2000000000, with the library calls that decode it.\<close>

definition fresh_token :: string where
  "fresh_token = ''h.eyJleHAiOjIwMDAwMDAwMDB9.s''"

definition fresh_libs :: libs where
  "fresh_libs =
     table_libs [(''eyJleHAiOjIwMDAwMDAwMDB9'', ''{'' @ [CHR 0x22] @ ''exp'' @ [CHR 0x22] @ '':2000000000}'')]
                [(''{'' @ [CHR 0x22] @ ''exp'' @ [CHR 0x22] @ '':2000000000}'',
                  JObj [(''exp'', JInt 2000000000)])]"

text \<open>A secrets file that holds the tokens of an earlier session.\<close>

definition session_world :: world where
  "session_world =
     \<lparr>environ = [''WARP_REFRESH_TOKEN'' \<mapsto> ''R1''],
      dotenv = [''WARP_JWT'' \<mapsto> ''A1'', ''WARP_REFRESH_TOKEN'' \<mapsto> ''R1'',
                ''WARP_ID_TOKEN'' \<mapsto> ''I1''],
      dotenv_writable = True, files = Map.empty, can_write = (\<lambda>p. True)\<rparr>"


section \<open>Properties of the response handler\<close>

lemma begin_event_actions:
  "contains_action (action_event ''begin_transaction'') ''begin_transaction''"
  by (simp add: contains_action_def action_event_def dict_get_def)

lemma rollback_event_actions:
  "\<not> contains_action (action_event ''rollback_transaction'') ''begin_transaction''"
  "contains_action (action_event ''rollback_transaction'') ''rollback_transaction''"
  by (simp_all add: contains_action_def action_event_def dict_get_def)

lemma handle_max_retries: "max_retries (fst (handle_sse_event h e)) = max_retries h"
  by (simp add: handle_sse_event_def)

lemma handle_retry_count_nonneg:
  "0 \<le> retry_count h \<Longrightarrow> 0 \<le> retry_count (fst (handle_sse_event h e))"
  by (simp add: handle_sse_event_def)

lemma handle_stream_Cons:
  "handle_stream h (e # es) =
     (fst (handle_stream (fst (handle_sse_event h e)) es),
      snd (handle_sse_event h e) # snd (handle_stream (fst (handle_sse_event h e)) es))"
  by (simp add: split_beta)

text \<open>
  C1. A fresh handler with \<open>max_retries = 2\<close> that is fed a begin event and three rollback
  events emits the begin event itself, the retry markers for the counter values 1 and 2
  (the first and the second retry message) and the fallback message, and ends in the
  state \<open>failed\<close>.
\<close>

theorem stuck_stream_scenario:
  "handle_stream (new_handler 2)
     [action_event ''begin_transaction'', action_event ''rollback_transaction'',
      action_event ''rollback_transaction'', action_event ''rollback_transaction'']
     = (\<lparr>transaction_state = FAILED, retry_count = 2, max_retries = 2\<rparr>,
        [PassThrough (action_event ''begin_transaction''), RetryMarker 1, RetryMarker 2, Fallback])
   \<and> map to_json
        [PassThrough (action_event ''begin_transaction''), RetryMarker 1, RetryMarker 2, Fallback]
     = [action_event ''begin_transaction'',
        delta_event (retry_prefix @ retry_message_0 @ [CHR 0x0A, CHR 0x0A]),
        delta_event (retry_prefix @ retry_message_1 @ [CHR 0x0A, CHR 0x0A]),
        delta_event fallback_content]"
proof
  show "handle_stream (new_handler 2)
     [action_event ''begin_transaction'', action_event ''rollback_transaction'',
      action_event ''rollback_transaction'', action_event ''rollback_transaction'']
     = (\<lparr>transaction_state = FAILED, retry_count = 2, max_retries = 2\<rparr>,
        [PassThrough (action_event ''begin_transaction''), RetryMarker 1, RetryMarker 2, Fallback])"
    by (simp add: handle_sse_event_def new_handler_def begin_event_actions rollback_event_actions)
  show "map to_json
        [PassThrough (action_event ''begin_transaction''), RetryMarker 1, RetryMarker 2, Fallback]
     = [action_event ''begin_transaction'',
        delta_event (retry_prefix @ retry_message_0 @ [CHR 0x0A, CHR 0x0A]),
        delta_event (retry_prefix @ retry_message_1 @ [CHR 0x0A, CHR 0x0A]),
        delta_event fallback_content]"
    by (simp add: create_retry_response_def retry_messages_def create_fallback_response_def)
qed

subsection \<open>Counting what a stream emits\<close>

lemma retries_bound:
  "0 \<le> retry_count h \<Longrightarrow>
   int (count_retries (snd (handle_stream h evs)))
     \<le> max 0 (max_retries h - retry_count h) + max 0 (max_retries h) * int (count_begin evs)"
proof (induction evs arbitrary: h)
  case Nil
  then show ?case by (simp add: count_retries_def count_begin_def)
next
  case (Cons e es)
  let ?h1 = "fst (handle_sse_event h e)"
  have nn: "0 \<le> retry_count ?h1"
    using Cons.prems by (rule handle_retry_count_nonneg)
  have ih: "int (count_retries (snd (handle_stream ?h1 es)))
     \<le> max 0 (max_retries h - retry_count ?h1) + max 0 (max_retries h) * int (count_begin es)"
    using Cons.IH [OF nn] by (simp add: handle_max_retries)
  show ?case
  proof (cases "contains_action e ''begin_transaction''")
    case True
    then have "retry_count ?h1 = 0" "\<not> is_retry_marker (snd (handle_sse_event h e))"
      by (simp_all add: handle_sse_event_def)
    with ih True show ?thesis
      by (simp add: handle_stream_Cons count_retries_def count_begin_def algebra_simps
               del: handle_stream.simps)
  next
    case False
    then have cb: "count_begin (e # es) = count_begin es"
      by (simp add: count_begin_def)
    show ?thesis
    proof (cases "is_retry_marker (snd (handle_sse_event h e))")
      case True
      then have "retry_count h < max_retries h" "retry_count ?h1 = retry_count h + 1"
        by (auto simp add: handle_sse_event_def split: if_splits)
      with ih True cb show ?thesis
        by (simp add: handle_stream_Cons count_retries_def del: handle_stream.simps)
    next
      case no_retry: False
      with False have "retry_count ?h1 = retry_count h"
        by (auto simp add: handle_sse_event_def split: if_splits)
      with ih no_retry cb show ?thesis
        by (simp add: handle_stream_Cons count_retries_def del: handle_stream.simps)
    qed
  qed
qed

lemma emitted_shape:
  "list_all2 (\<lambda>e out. out = PassThrough e \<or> is_synthesized out) evs (snd (handle_stream h evs))"
proof (induction evs arbitrary: h)
  case Nil
  show ?case by simp
next
  case (Cons e es)
  have "snd (handle_sse_event h e) = PassThrough e \<or> is_synthesized (snd (handle_sse_event h e))"
    by (simp add: handle_sse_event_def is_synthesized_def)
  with Cons.IH show ?case
    by (simp add: handle_stream_Cons del: handle_stream.simps)
qed

lemma emitted_partition:
  "length outs = length (filter is_pass_through outs) + length (filter is_synthesized outs)"
  unfolding is_synthesized_def by (simp add: sum_length_filter_compl)

text \<open>
  C4, as amended. For every stream fed to a fresh handler, the event emitted for an input
  event is that event passed through or a synthesized one, so the number of emitted events
  is the number passed through plus the number synthesized; and the number of retry
  markers is at most \<open>max_retries\<close> for each begin event of the stream and \<open>max_retries\<close>
  once more for the events before the first begin, since every begin event sets the
  counter back to zero.
\<close>

theorem stream_counts:
  "list_all2 (\<lambda>e out. out = PassThrough e \<or> is_synthesized out) evs
      (snd (handle_stream (new_handler m) evs))
   \<and> length (snd (handle_stream (new_handler m) evs))
       = length (filter is_pass_through (snd (handle_stream (new_handler m) evs)))
         + length (filter is_synthesized (snd (handle_stream (new_handler m) evs)))
   \<and> count_retries (snd (handle_stream (new_handler m) evs)) \<le> nat m * (1 + count_begin evs)"
proof -
  have "int (count_retries (snd (handle_stream (new_handler m) evs)))
          \<le> max 0 m + max 0 m * int (count_begin evs)"
    using retries_bound [of "new_handler m" evs] by (simp add: new_handler_def)
  also have "\<dots> = int (nat m * (1 + count_begin evs))"
    by (simp add: algebra_simps max_def)
  finally have "count_retries (snd (handle_stream (new_handler m) evs))
                  \<le> nat m * (1 + count_begin evs)"
    by linarith
  then show ?thesis
    using emitted_shape emitted_partition by blast
qed

theorem stream_counts_witness:
  "count_retries (snd (handle_stream (new_handler 2)
       [action_event ''begin_transaction'', action_event ''rollback_transaction''])) \<le> 4"
proof -
  have "count_begin [action_event ''begin_transaction'', action_event ''rollback_transaction''] = 1"
    by (simp add: count_begin_def begin_event_actions rollback_event_actions)
  then show ?thesis
    using stream_counts [of "[action_event ''begin_transaction'',
                              action_event ''rollback_transaction'']" 2]
    by simp
qed

text \<open>
  The claim as written fails: two transactions of two rollbacks each give four retry
  markers with \<open>max_retries = 2\<close>.
\<close>

theorem retry_total_counterexample:
  "\<not> count_retries (snd (handle_stream (new_handler 2)
        [action_event ''begin_transaction'', action_event ''rollback_transaction'',
         action_event ''rollback_transaction'', action_event ''begin_transaction'',
         action_event ''rollback_transaction'', action_event ''rollback_transaction'']))
      \<le> nat 2"
  by (simp add: handle_sse_event_def new_handler_def begin_event_actions rollback_event_actions
        count_retries_def)

subsection \<open>The stuck branch and the fallback\<close>

lemma update_task_event_stuck:
  "takes_stuck_branch (action_event ''update_task_description'')"
  by code_simp

text \<open>
  What the stuck branch does: an event that has none of the three transaction actions and
  matches the stuck signature leaves the transaction state as it is; when
  \<open>retry_count < max_retries\<close> the counter is incremented and a retry marker is emitted
  in place of the event, otherwise the fallback message is emitted and the handler is
  unchanged.
\<close>

lemma stuck_branch_behaviour:
  "takes_stuck_branch e \<Longrightarrow>
   handle_sse_event h e =
     (if retry_count h < max_retries h
      then (h\<lparr>retry_count := retry_count h + 1\<rparr>, RetryMarker (retry_count h + 1))
      else (h, Fallback))
   \<and> transaction_state (fst (handle_sse_event h e)) = transaction_state h"
  by (simp add: takes_stuck_branch_def handle_sse_event_def)

text \<open>
  What the rollback branch does, for comparison: the state becomes \<open>retrying\<close> with a
  retry marker and \<open>failed\<close> with the fallback.
\<close>

lemma rollback_branch_behaviour:
  "takes_rollback_branch e \<Longrightarrow>
   handle_sse_event h e =
     (if retry_count h < max_retries h
      then (h\<lparr>transaction_state := RETRYING, retry_count := retry_count h + 1\<rparr>,
            RetryMarker (retry_count h + 1))
      else (h\<lparr>transaction_state := FAILED\<rparr>, Fallback))"
  by (simp add: takes_rollback_branch_def handle_sse_event_def)

text \<open>
  C5. The stuck branch does not behave as the rollback branch does. An event with none of
  the three transaction actions and the stuck signature, given to a fresh handler with
  \<open>max_retries = 2\<close>, puts out the retry marker and leaves the state \<open>idle\<close>, where the
  claim has \<open>retrying\<close>; given to a handler that two rollbacks have left in the state
  \<open>retrying\<close> with the counter at \<open>max_retries\<close>, it puts out the fallback and leaves the
  state \<open>retrying\<close>, where the claim (and the rollback branch on the same handler) has
  \<open>failed\<close>.
\<close>

theorem stuck_branch_keeps_state:
  "takes_stuck_branch (action_event ''update_task_description'')
   \<and> handle_sse_event (new_handler 2) (action_event ''update_task_description'')
       = (\<lparr>transaction_state = IDLE, retry_count = 1, max_retries = 2\<rparr>, RetryMarker 1)
   \<and> handle_sse_event \<lparr>transaction_state = RETRYING, retry_count = 2, max_retries = 2\<rparr>
         (action_event ''update_task_description'')
       = (\<lparr>transaction_state = RETRYING, retry_count = 2, max_retries = 2\<rparr>, Fallback)
   \<and> handle_sse_event \<lparr>transaction_state = RETRYING, retry_count = 2, max_retries = 2\<rparr>
         (action_event ''rollback_transaction'')
       = (\<lparr>transaction_state = FAILED, retry_count = 2, max_retries = 2\<rparr>, Fallback)"
proof -
  have s: "takes_stuck_branch (action_event ''update_task_description'')"
    by (rule update_task_event_stuck)
  have r: "takes_rollback_branch (action_event ''rollback_transaction'')"
    by (simp add: takes_rollback_branch_def rollback_event_actions)
  show ?thesis
    using s stuck_branch_behaviour [OF s, of "new_handler 2"]
          stuck_branch_behaviour
            [OF s, of "\<lparr>transaction_state = RETRYING, retry_count = 2, max_retries = 2\<rparr>"]
          rollback_branch_behaviour
            [OF r, of "\<lparr>transaction_state = RETRYING, retry_count = 2, max_retries = 2\<rparr>"]
    by (simp add: new_handler_def)
qed

text \<open>
  C10, as amended. When an event reaches the rollback branch (it has a rollback action
  and no begin action) or the stuck branch (it has none of the three transaction actions
  and matches the stuck signature) and the counter has reached \<open>max_retries\<close>, the
  handler returns the fallback message and nothing else: the event itself is not passed
  through.
\<close>

theorem fallback_replaces_event:
  "takes_rollback_branch e \<or> takes_stuck_branch e \<Longrightarrow>
   max_retries h \<le> retry_count h \<Longrightarrow>
   snd (handle_sse_event h e) = Fallback
   \<and> snd (handle_sse_event_json h e) = create_fallback_response
   \<and> snd (handle_sse_event h e) \<noteq> PassThrough e"
  by (auto simp add: takes_rollback_branch_def takes_stuck_branch_def handle_sse_event_def
        handle_sse_event_json_def)

theorem fallback_replaces_event_witness:
  "takes_rollback_branch (action_event ''rollback_transaction'')
   \<and> snd (handle_sse_event_json
            \<lparr>transaction_state = RETRYING, retry_count = 2, max_retries = 2\<rparr>
            (action_event ''rollback_transaction'')) = delta_event fallback_content"
proof -
  have rb: "takes_rollback_branch (action_event ''rollback_transaction'')"
    by (simp add: takes_rollback_branch_def rollback_event_actions)
  then show ?thesis
    using fallback_replaces_event
            [of "action_event ''rollback_transaction''"
                "\<lparr>transaction_state = RETRYING, retry_count = 2, max_retries = 2\<rparr>"]
    by (simp add: create_fallback_response_def)
qed

text \<open>
  The claim as written fails: the branches are tried in the order begin, rollback, commit,
  stuck. With the counter at \<open>max_retries\<close>, a rollback event that also has a begin
  action is passed through by the begin branch, and an event with the stuck signature
  that has a commit action is passed through by the commit branch.
\<close>

theorem fallback_precedence_counterexample:
  "contains_action begin_rollback_event ''rollback_transaction''
   \<and> snd (handle_sse_event \<lparr>transaction_state = RETRYING, retry_count = 2, max_retries = 2\<rparr>
            begin_rollback_event) = PassThrough begin_rollback_event
   \<and> is_stuck_response commit_stuck_event
   \<and> snd (handle_sse_event \<lparr>transaction_state = RETRYING, retry_count = 2, max_retries = 2\<rparr>
            commit_stuck_event) = PassThrough commit_stuck_event"
proof -
  have b: "contains_action begin_rollback_event ''begin_transaction''"
          "contains_action begin_rollback_event ''rollback_transaction''"
    by (simp_all add: contains_action_def begin_rollback_event_def dict_get_def)
  have c: "\<not> contains_action commit_stuck_event ''begin_transaction''"
          "\<not> contains_action commit_stuck_event ''rollback_transaction''"
          "contains_action commit_stuck_event ''commit_transaction''"
    by (simp_all add: contains_action_def commit_stuck_event_def dict_get_def)
  have s: "is_stuck_response commit_stuck_event"
    by code_simp
  show ?thesis
    using b c s by (simp add: handle_sse_event_def)
qed

subsection \<open>The risk classifier\<close>

lemma risk_score_at_most:
  "assess_file_operation_risk user_message \<le> 7 / 10"
proof (cases "user_message = []")
  case True
  then show ?thesis by (simp add: assess_file_operation_risk_def)
next
  case False
  let ?p = "length (filter (\<lambda>p. re_search_ignorecase p user_message) risk_patterns)"
  let ?k = "length (filter (\<lambda>k. str_contains (lower k) (lower user_message))
                      file_operation_keywords)"
  have "?p \<le> length risk_patterns" by (rule length_filter_le)
  then have p: "?p \<le> 8" by (simp add: risk_patterns_def)
  have "?k \<le> length file_operation_keywords" by (rule length_filter_le)
  then have k: "?k \<le> 12" by (simp add: file_operation_keywords_def)
  have len: "length risk_patterns + length file_operation_keywords = 20"
    by (simp add: risk_patterns_def file_operation_keywords_def)
  have "(real ?p + real ?k / 2) / 20 \<le> 7 / 10"
    using p k by simp
  then show ?thesis
    using False by (simp add: assess_file_operation_risk_def Let_def len min_def)
qed

text \<open>
  C6, as amended. The message of the scenario scores 0.1 (one pattern and two keywords
  out of twenty) and \<open>transform_risky_request\<close> returns it unchanged; \<open>explain big-O\<close>
  scores 0 and is returned unchanged.
\<close>

theorem risk_scenario:
  "assess_file_operation_risk scenario_message = 1 / 10
   \<and> transform_risky_request scenario_message (assess_file_operation_risk scenario_message)
       = scenario_message
   \<and> assess_file_operation_risk ''explain big-O'' = 0
   \<and> transform_risky_request ''explain big-O'' (assess_file_operation_risk ''explain big-O'')
       = ''explain big-O''"
proof -
  have a: "assess_file_operation_risk scenario_message = 1 / 10"
    by code_simp
  have b: "assess_file_operation_risk ''explain big-O'' = 0"
    by code_simp
  show ?thesis
    unfolding a b by (simp add: transform_risky_request_def)
qed

text \<open>
  The claim as written fails: the score of the scenario's message is below 0.7 and the
  wrapped instruction is not what comes back.
\<close>

theorem risk_scenario_counterexample:
  "\<not> (7 / 10 \<le> assess_file_operation_risk scenario_message)
   \<and> transform_risky_request scenario_message (assess_file_operation_risk scenario_message)
       \<noteq> wrap_prefix @ scenario_message @ wrap_suffix"
proof -
  have a: "assess_file_operation_risk scenario_message = 1 / 10"
    by code_simp
  show ?thesis
    unfolding a by (simp add: transform_risky_request_def wrap_suffix_def)
qed

section \<open>Properties of the token codec\<close>

lemma decode_wrong_parts:
  "length (split_on CHR ''.'' token) \<noteq> 3 \<Longrightarrow> decode_jwt_payload L token = JObj []"
  by (auto simp add: decode_jwt_payload_def split: list.splits)

lemma expired_when_empty:
  "\<not> truthy (decode_jwt_payload L token) \<Longrightarrow> is_token_expired L now token m = Inr True"
  by (simp add: is_token_expired_def)

lemma expired_when_no_exp:
  "decode_jwt_payload L token = JObj kvs \<Longrightarrow> map_of kvs ''exp'' = None \<Longrightarrow>
   is_token_expired L now token m = Inr True"
  by (auto simp add: is_token_expired_def Let_def map_of_eq_None_iff)

lemma expired_by_exp:
  "decode_jwt_payload L token = JObj kvs \<Longrightarrow> map_of kvs ''exp'' = Some v \<Longrightarrow>
   as_number v = Inr t \<Longrightarrow>
   is_token_expired L now token m = Inr (t - now \<le> real_of_int (m * 60))"
proof -
  assume a: "decode_jwt_payload L token = JObj kvs" "map_of kvs ''exp'' = Some v" "as_number v = Inr t"
  from a(2) have "(''exp'', v) \<in> set kvs" by (rule map_of_SomeD)
  then have "''exp'' \<in> fst ` set kvs" by force
  moreover from this have "kvs \<noteq> []" by auto
  ultimately show ?thesis using a by (simp add: is_token_expired_def Let_def)
qed

text \<open>
  C8. \<open>decode_jwt_payload\<close> returns a value for every token (it is a total function of
  the model, every exception of the source being caught), and the three lemmas above give
  \<open>is_token_expired\<close> on a payload that is empty or a dict. The claim fails on a token
  whose middle segment decodes to a number: for \<open>a.NQ.b\<close> the padded segment is \<open>NQ==\<close>,
  which decodes to the text \<open>5\<close>; the payload 5 is not empty and has no \<open>exp\<close>, and
  \<open>is_token_expired\<close> raises a \<open>TypeError\<close> where the claim has it return true.
\<close>

theorem expired_raises_on_number:
  "urlsafe_b64decode L ''NQ=='' = Some bs \<Longrightarrow> json_loads L bs = Some (JInt 5) \<Longrightarrow>
   decode_jwt_payload L ''a.NQ.b'' = JInt 5
   \<and> is_token_expired L now ''a.NQ.b'' m = Inl TypeError"
proof -
  assume b: "urlsafe_b64decode L ''NQ=='' = Some bs" and j: "json_loads L bs = Some (JInt 5)"
  have pad: "''NQ'' @ replicate (4 - length ''NQ'' mod 4) CHR ''='' = ''NQ==''"
    by (simp add: numeral_2_eq_2)
  have d: "decode_jwt_payload L ''a.NQ.b'' = JInt 5"
    unfolding decode_jwt_payload_def Let_def using b j pad
    by (simp add: is_ascii_def)
  show ?thesis
    unfolding is_token_expired_def Let_def d by simp
qed

theorem expired_raises_on_number_witness:
  "urlsafe_b64decode number_libs ''NQ=='' = Some ''5''
   \<and> json_loads number_libs ''5'' = Some (JInt 5)
   \<and> is_token_expired number_libs 0 ''a.NQ.b'' 0 = Inl TypeError"
  using expired_raises_on_number [of number_libs "''5''" 0 0]
  by (simp add: number_libs_def table_libs_def)

section \<open>Properties of the accounts file\<close>

lemma dict_set_new: "k \<notin> fst ` set kvs \<Longrightarrow> dict_set kvs k v = kvs @ [(k, v)]"
  by (induction kvs) auto

lemma init_status_records:
  "\<forall>a \<in> set accounts. is_account_record a \<Longrightarrow>
   map_option fst (init_status accounts) = Some (map materialize_status accounts)"
proof (induction accounts)
  case Nil
  show ?case by simp
next
  case (Cons a as)
  then obtain kvs where a: "a = JObj kvs"
    by (auto simp add: is_account_record_def split: json.splits)
  from Cons obtain u where u: "init_status as = Some (map materialize_status as, u)"
    by auto
  show ?case
  proof (cases "''account_status'' \<in> fst ` set kvs")
    case True
    with a u show ?thesis by (simp add: materialize_status_def)
  next
    case False
    with a u show ?thesis by (simp add: materialize_status_def dict_set_new)
  qed
qed

lemma materialize_has_status:
  "is_account_record a \<Longrightarrow> has_status (materialize_status a)"
  by (auto simp add: is_account_record_def has_status_def materialize_status_def split: json.splits)

lemma materialize_idem: "materialize_status (materialize_status a) = materialize_status a"
  by (auto simp add: materialize_status_def split: json.splits)

text \<open>
  When the save has written the file, loading it returns the records in their order, each
  one as it was saved but for the status \<open>available\<close> given to a record that had none,
  and every loaded record has a status.
\<close>

lemma round_trip_when_saved:
  assumes "\<forall>a \<in> set accounts. is_account_record a"
      and "save_accounts_to_file file_path (JArr accounts) w = (w', True)"
  shows "snd (load_accounts_from_file file_path w') = map materialize_status accounts
         \<and> (\<forall>a \<in> set (snd (load_accounts_from_file file_path w')). has_status a)"
proof -
  from assms(2) have f: "files w' file_path = Some (Doc (JArr accounts))"
    by (auto simp add: save_accounts_to_file_def split: if_splits)
  from init_status_records [OF assms(1)] obtain u
    where u: "init_status accounts = Some (map materialize_status accounts, u)" by auto
  have l: "snd (load_accounts_from_file file_path w') = map materialize_status accounts"
    using f u by (simp add: load_accounts_from_file_def)
  have "\<forall>a \<in> set (map materialize_status accounts). has_status a"
    using assms(1) materialize_has_status by auto
  with l show ?thesis by simp
qed

lemma round_trip_in_directory:
  "save_accounts_to_file ''data/accounts.json'' (JArr [account_a, account_b]) scenario_world
     = (scenario_world\<lparr>files := [''data/accounts.json'' \<mapsto> Doc (JArr [account_a, account_b])]\<rparr>, True)
   \<and> snd (load_accounts_from_file ''data/accounts.json''
        (scenario_world\<lparr>files := [''data/accounts.json'' \<mapsto> Doc (JArr [account_a, account_b])]\<rparr>))
     = [JObj [(''email'', JStr ''a''), (''refresh_token'', JStr ''ra''),
              (''account_status'', JStr ''available'')], account_b]"
proof -
  have s: "save_accounts_to_file ''data/accounts.json'' (JArr [account_a, account_b]) scenario_world
     = (scenario_world\<lparr>files := [''data/accounts.json'' \<mapsto> Doc (JArr [account_a, account_b])]\<rparr>, True)"
    by (simp add: save_accounts_to_file_def dirname_def scenario_world_def)
  have r: "\<forall>a \<in> set [account_a, account_b]. is_account_record a"
    by (simp add: is_account_record_def account_a_def account_b_def)
  show ?thesis
    using round_trip_when_saved [OF r s] s
    by (simp add: materialize_status_def account_a_def account_b_def)
qed

text \<open>A path without a directory part is never written.\<close>

lemma save_bare_name:
  "save_accounts_to_file ''accounts.json'' accounts w = (w, False)"
  by (simp add: save_accounts_to_file_def dirname_def)

text \<open>
  C9. The round trip fails for a file named without a directory: \<open>os.makedirs\<close> is
  called on the empty directory name of \<open>accounts.json\<close> and raises, the save returns
  false with nothing written, and loading the file, which is not there, returns the empty
  list and not the two accounts that were to be saved.
\<close>

theorem bare_name_round_trip_fails:
  "save_accounts_to_file ''accounts.json'' (JArr [account_a, account_b]) scenario_world
     = (scenario_world, False)
   \<and> snd (load_accounts_from_file ''accounts.json''
        (fst (save_accounts_to_file ''accounts.json'' (JArr [account_a, account_b])
                scenario_world))) = []
   \<and> map materialize_status [account_a, account_b] \<noteq> []"
  by (simp add: save_accounts_to_file_def dirname_def load_accounts_from_file_def
        scenario_world_def)

section \<open>Properties of the token refresh\<close>

lemma classify_error_cases:
  "classify_error 401 txt = ''invalid_token''"
  "classify_error 429 txt = (if quota_text txt then ''quota_exhausted'' else ''refresh_failed'')"
  "status \<noteq> 401 \<Longrightarrow> status \<noteq> 429 \<Longrightarrow>
     classify_error status txt = (if invalid_text txt then ''invalid_token'' else ''refresh_failed'')"
  by (simp_all add: classify_error_def quota_text_def invalid_text_def Let_def)

lemma update_env_frame:
  "environ (fst (update_env k v w)) = environ w"
  "dotenv_writable (fst (update_env k v w)) = dotenv_writable w"
  "files (fst (update_env k v w)) = files w"
  "can_write (fst (update_env k v w)) = can_write w"
  by (simp_all add: update_env_def set_key_def split: json.splits)

lemma update_env_dotenv:
  "dotenv (fst (update_env k v w)) =
     (case v of JStr s \<Rightarrow> if dotenv_writable w then (dotenv w)(k \<mapsto> s) else dotenv w
      | _ \<Rightarrow> dotenv w)"
  by (simp add: update_env_def set_key_def split: json.splits)

lemma update_env_ok:
  "snd (update_env k v w) = (dotenv_writable w \<and> (\<exists>s. v = JStr s))"
  by (simp add: update_env_def set_key_def split: json.splits)

lemma refresh_not_200:
  "token_endpoint up (refresh_request w) = Response r \<Longrightarrow> status_code r \<noteq> 200 \<Longrightarrow>
   refresh_jwt_token up w = (w, error_result (classify_error (status_code r) (body_text r)))"
  by (simp add: refresh_jwt_token_def)

lemma refresh_200_object:
  assumes "token_endpoint up (refresh_request w) = Response r" "status_code r = 200"
      and "json_body r = Some (JObj kvs)"
  shows "snd (refresh_jwt_token up w) = JObj kvs"
    and "dotenv (fst (refresh_jwt_token up w)) =
           (case map_of kvs ''id_token'' of
              Some (JStr i) \<Rightarrow> if dotenv_writable w then (dotenv w)(''WARP_ID_TOKEN'' \<mapsto> i) else dotenv w
            | _ \<Rightarrow> dotenv w)"
    and "environ (fst (refresh_jwt_token up w)) = environ w"
    and "dotenv_writable (fst (refresh_jwt_token up w)) = dotenv_writable w"
    and "files (fst (refresh_jwt_token up w)) = files w"
    and "can_write (fst (refresh_jwt_token up w)) = can_write w"
proof -
  show "snd (refresh_jwt_token up w) = JObj kvs"
  proof (cases "map_of kvs ''id_token''")
    case None
    then have "''id_token'' \<notin> fst ` set kvs" by (simp add: map_of_eq_None_iff)
    with assms None show ?thesis by (simp add: refresh_jwt_token_def)
  next
    case (Some v)
    then have "(''id_token'', v) \<in> set kvs" by (rule map_of_SomeD)
    then have "''id_token'' \<in> fst ` set kvs" by force
    with assms Some show ?thesis by (simp add: refresh_jwt_token_def)
  qed
  show "dotenv (fst (refresh_jwt_token up w)) =
           (case map_of kvs ''id_token'' of
              Some (JStr i) \<Rightarrow> if dotenv_writable w then (dotenv w)(''WARP_ID_TOKEN'' \<mapsto> i) else dotenv w
            | _ \<Rightarrow> dotenv w)"
  proof (cases "map_of kvs ''id_token''")
    case None
    then have "''id_token'' \<notin> fst ` set kvs" by (simp add: map_of_eq_None_iff)
    with assms None show ?thesis by (simp add: refresh_jwt_token_def)
  next
    case (Some v)
    then have "(''id_token'', v) \<in> set kvs" by (rule map_of_SomeD)
    then have "''id_token'' \<in> fst ` set kvs" by force
    with assms Some show ?thesis
      by (simp add: refresh_jwt_token_def update_env_id_token_def update_env_dotenv split: json.splits)
  qed
  show "environ (fst (refresh_jwt_token up w)) = environ w"
    using assms by (simp add: refresh_jwt_token_def update_env_id_token_def update_env_frame
        split: option.splits sum.splits bool.splits)
  show "dotenv_writable (fst (refresh_jwt_token up w)) = dotenv_writable w"
    using assms by (simp add: refresh_jwt_token_def update_env_id_token_def update_env_frame
        split: option.splits sum.splits bool.splits)
  show "files (fst (refresh_jwt_token up w)) = files w"
    using assms by (simp add: refresh_jwt_token_def update_env_id_token_def update_env_frame
        split: option.splits sum.splits bool.splits)
  show "can_write (fst (refresh_jwt_token up w)) = can_write w"
    using assms by (simp add: refresh_jwt_token_def update_env_id_token_def update_env_frame
        split: option.splits sum.splits bool.splits)
qed

lemma plain_refresh_200:
  assumes "token_endpoint up (refresh_request w) = Response r" "status_code r = 200"
      and "json_body r = Some (JObj kvs)" "map_of kvs ''access_token'' = Some (JStr a)"
  shows "is_token_expired L now a 0 = Inr False \<Longrightarrow> dotenv_writable w \<Longrightarrow>
           snd (plain_token_refresh L now up w) = Inr True
           \<and> dotenv (fst (plain_token_refresh L now up w)) ''WARP_JWT'' = Some a"
    and "is_token_expired L now a 0 = Inr True \<Longrightarrow>
           snd (plain_token_refresh L now up w) = Inr False
           \<and> dotenv (fst (plain_token_refresh L now up w)) ''WARP_JWT'' = dotenv w ''WARP_JWT''"
proof -
  obtain w1 where w1: "refresh_jwt_token up w = (w1, JObj kvs)"
    using refresh_200_object(1) [OF assms(1-3)] by (cases "refresh_jwt_token up w") auto
  then have fw: "w1 = fst (refresh_jwt_token up w)" by simp
  have d1: "dotenv w1 ''WARP_JWT'' = dotenv w ''WARP_JWT''"
    unfolding fw refresh_200_object(2) [OF assms(1-3)]
    by (simp split: option.splits json.splits)
  have wr: "dotenv_writable w1 = dotenv_writable w"
    unfolding fw by (rule refresh_200_object(4) [OF assms(1-3)])
  from assms(4) have "(''access_token'', JStr a) \<in> set kvs" by (rule map_of_SomeD)
  then have k: "''access_token'' \<in> fst ` set kvs" "kvs \<noteq> []" by force+
  { assume "is_token_expired L now a 0 = Inr False" "dotenv_writable w"
    then show "snd (plain_token_refresh L now up w) = Inr True
           \<and> dotenv (fst (plain_token_refresh L now up w)) ''WARP_JWT'' = Some a"
      using w1 k assms(4) wr
      by (simp add: plain_token_refresh_def is_token_expired_value_def update_env_file_def
            update_env_def set_key_def) }
  { assume "is_token_expired L now a 0 = Inr True"
    then show "snd (plain_token_refresh L now up w) = Inr False
           \<and> dotenv (fst (plain_token_refresh L now up w)) ''WARP_JWT'' = dotenv w ''WARP_JWT''"
      using w1 k assms(4) d1
      by (simp add: plain_token_refresh_def is_token_expired_value_def) }
qed

lemma first_refresh_200:
  assumes "token_endpoint up (refresh_request w) = Response r" "status_code r = 200"
      and "json_body r = Some (JObj kvs)" "map_of kvs ''access_token'' = Some (JStr a)"
      and "dotenv_writable w"
  shows "snd (first_token_refresh up w) = Inr True
         \<and> dotenv (fst (first_token_refresh up w)) ''WARP_JWT'' = Some a"
proof -
  obtain w1 where w1: "refresh_jwt_token up w = (w1, JObj kvs)"
    using refresh_200_object(1) [OF assms(1-3)] by (cases "refresh_jwt_token up w") auto
  then have fw: "w1 = fst (refresh_jwt_token up w)" by simp
  have wr: "dotenv_writable w1"
    unfolding fw using refresh_200_object(4) [OF assms(1-3)] assms(5) by simp
  from assms(4) have "(''access_token'', JStr a) \<in> set kvs" by (rule map_of_SomeD)
  then have k: "''access_token'' \<in> fst ` set kvs" "kvs \<noteq> []" by force+
  show ?thesis
    using w1 k assms(4) wr
    by (simp add: first_token_refresh_def update_env_file_def update_env_def set_key_def)
qed

text \<open>
  C3, as amended. For every response to the refresh request: status 401 gives
  \<open>invalid_token\<close>; status 429 gives \<open>quota_exhausted\<close> when the lower-cased body has one
  of the two quota phrases and \<open>refresh_failed\<close> otherwise; any status other than 200, 401
  and 429 gives \<open>invalid_token\<close> when the lower-cased body has one of the three
  invalid-token phrases and \<open>refresh_failed\<close> otherwise; status 200 with a body that does
  not parse gives \<open>refresh_failed\<close>; status 200 with a JSON object gives that object, and
  its \<open>id_token\<close>, when a string, is written to the secrets file at once if the file
  can be written. In \<open>check_and_refresh_token\<close> the \<open>access_token\<close>, when a string,
  is then written and true returned if the file can be written: by the refresh taken when
  no access token is stored, whatever the expiry of the new token; by the plain refresh,
  when the new token is not already expired. The plain refresh returns false, with the
  old access token kept, when the new token is already expired.
\<close>

theorem refresh_response_mapping:
  "token_endpoint up (refresh_request w) = Response r \<Longrightarrow>
     (status_code r = 401 \<longrightarrow> refresh_jwt_token up w = (w, error_result ''invalid_token''))
   \<and> (status_code r = 429 \<longrightarrow>
        refresh_jwt_token up w
          = (w, error_result (if quota_text (body_text r) then ''quota_exhausted''
                              else ''refresh_failed'')))
   \<and> (status_code r \<notin> {200, 401, 429} \<longrightarrow>
        refresh_jwt_token up w
          = (w, error_result (if invalid_text (body_text r) then ''invalid_token''
                              else ''refresh_failed'')))
   \<and> (status_code r = 200 \<longrightarrow> json_body r = None \<longrightarrow>
        refresh_jwt_token up w = (w, error_result ''refresh_failed''))
   \<and> (status_code r = 200 \<longrightarrow> json_body r = Some (JObj kvs) \<longrightarrow>
        snd (refresh_jwt_token up w) = JObj kvs
        \<and> dotenv (fst (refresh_jwt_token up w)) =
            (case map_of kvs ''id_token'' of
               Some (JStr i) \<Rightarrow>
                 if dotenv_writable w then (dotenv w)(''WARP_ID_TOKEN'' \<mapsto> i) else dotenv w
             | _ \<Rightarrow> dotenv w))
   \<and> (status_code r = 200 \<longrightarrow> json_body r = Some (JObj kvs) \<longrightarrow>
      map_of kvs ''access_token'' = Some (JStr a) \<longrightarrow>
        (dotenv_writable w \<longrightarrow>
           snd (first_token_refresh up w) = Inr True
           \<and> dotenv (fst (first_token_refresh up w)) ''WARP_JWT'' = Some a)
        \<and> (is_token_expired L now a 0 = Inr False \<longrightarrow> dotenv_writable w \<longrightarrow>
           snd (plain_token_refresh L now up w) = Inr True
           \<and> dotenv (fst (plain_token_refresh L now up w)) ''WARP_JWT'' = Some a)
        \<and> (is_token_expired L now a 0 = Inr True \<longrightarrow>
             snd (plain_token_refresh L now up w) = Inr False
             \<and> dotenv (fst (plain_token_refresh L now up w)) ''WARP_JWT''
                 = dotenv w ''WARP_JWT''))"
proof -
  assume e: "token_endpoint up (refresh_request w) = Response r"
  have c1: "status_code r = 401 \<longrightarrow> refresh_jwt_token up w = (w, error_result ''invalid_token'')"
    using refresh_not_200 [OF e] by (simp add: classify_error_cases)
  have c2: "status_code r = 429 \<longrightarrow>
        refresh_jwt_token up w
          = (w, error_result (if quota_text (body_text r) then ''quota_exhausted''
                              else ''refresh_failed''))"
    using refresh_not_200 [OF e] by (simp add: classify_error_cases)
  have c3: "status_code r \<notin> {200, 401, 429} \<longrightarrow>
        refresh_jwt_token up w
          = (w, error_result (if invalid_text (body_text r) then ''invalid_token''
                              else ''refresh_failed''))"
    using refresh_not_200 [OF e] by (simp add: classify_error_cases)
  have c4: "status_code r = 200 \<longrightarrow> json_body r = None \<longrightarrow>
        refresh_jwt_token up w = (w, error_result ''refresh_failed'')"
    using e by (simp add: refresh_jwt_token_def)
  note c5 = refresh_200_object(1,2) [OF e]
  note c6 = plain_refresh_200 [OF e]
  note c7 = first_refresh_200 [OF e]
  from c1 c2 c3 c4 c5 c6 c7 show ?thesis by blast
qed


lemma fresh_token_valid: "is_token_expired fresh_libs 1700000000 fresh_token 0 = Inr False"
proof -
  have d: "decode_jwt_payload fresh_libs fresh_token = JObj [(''exp'', JInt 2000000000)]"
    by (simp add: decode_jwt_payload_def fresh_libs_def table_libs_def fresh_token_def
          is_ascii_def Let_def)
  show ?thesis
    unfolding is_token_expired_def Let_def d by (simp add: float_limit_def)
qed

theorem refresh_response_mapping_witness:
  "snd (plain_token_refresh fresh_libs 1700000000
          (token_upstream (ok_response (JObj [(''access_token'', JStr fresh_token),
                                               (''id_token'', JStr ''I9'')])))
          session_world) = Inr True
   \<and> dotenv (fst (plain_token_refresh fresh_libs 1700000000
          (token_upstream (ok_response (JObj [(''access_token'', JStr fresh_token),
                                               (''id_token'', JStr ''I9'')])))
          session_world)) ''WARP_JWT'' = Some fresh_token
   \<and> dotenv (fst (refresh_jwt_token
          (token_upstream (ok_response (JObj [(''access_token'', JStr fresh_token),
                                               (''id_token'', JStr ''I9'')])))
          session_world)) ''WARP_ID_TOKEN'' = Some ''I9''
   \<and> snd (first_token_refresh
          (token_upstream (ok_response (JObj [(''access_token'', JStr fresh_token),
                                               (''id_token'', JStr ''I9'')])))
          session_world) = Inr True"
proof -
  let ?body = "[(''access_token'', JStr fresh_token), (''id_token'', JStr ''I9'')]"
  let ?r = "\<lparr>status_code = 200, body_text = dumps (JObj ?body), json_body = Some (JObj ?body)\<rparr>"
  have e: "token_endpoint (token_upstream (ok_response (JObj ?body))) (refresh_request session_world)
             = Response ?r"
    by (simp add: token_upstream_def ok_response_def)
  have w: "dotenv_writable session_world"
    by (simp add: session_world_def)
  show ?thesis
    using refresh_response_mapping [OF e, of ?body fresh_token fresh_libs 1700000000]
          fresh_token_valid w
    by (simp add: session_world_def)
qed

text \<open>
  The claim as written fails twice: a response with status 429 whose body is
  \<open>invalid_grant\<close> matches the invalid-token pattern and gives \<open>refresh_failed\<close>; and a
  response with status 200 whose \<open>access_token\<close> is no token (it has a single part, so it
  counts as expired) makes the plain refresh return false with the old access token kept,
  while the refresh taken when no access token is stored writes it and returns true.
\<close>

theorem response_mapping_counterexample:
  "invalid_text ''invalid_grant''
   \<and> refresh_jwt_token (token_upstream (error_response 429 ''invalid_grant'')) session_world
       = (session_world, error_result ''refresh_failed'')
   \<and> error_result ''refresh_failed'' \<noteq> error_result ''invalid_token''
   \<and> snd (plain_token_refresh number_libs 0
            (token_upstream (ok_response (JObj [(''access_token'', JStr ''abc'')])))
            session_world) = Inr False
   \<and> dotenv (fst (plain_token_refresh number_libs 0
            (token_upstream (ok_response (JObj [(''access_token'', JStr ''abc'')])))
            session_world)) ''WARP_JWT'' = Some ''A1''
   \<and> snd (first_token_refresh
            (token_upstream (ok_response (JObj [(''access_token'', JStr ''abc'')])))
            session_world) = Inr True
   \<and> dotenv (fst (first_token_refresh
            (token_upstream (ok_response (JObj [(''access_token'', JStr ''abc'')])))
            session_world)) ''WARP_JWT'' = Some ''abc''"
proof -
  have t: "invalid_text ''invalid_grant''"
    by code_simp
  have c: "classify_error 429 ''invalid_grant'' = ''refresh_failed''"
    by code_simp
  have x: "is_token_expired number_libs 0 ''abc'' 0 = Inr True"
    by (simp add: is_token_expired_def decode_jwt_payload_def)
  show ?thesis
    using t c x
    by (simp add: refresh_jwt_token_def token_upstream_def error_response_def error_result_def
          plain_token_refresh_def first_token_refresh_def ok_response_def
          is_token_expired_value_def session_world_def update_env_file_def update_env_def
          set_key_def)
qed

section \<open>What a refresh leaves in the secrets file\<close>

lemma save_frame:
  "environ (fst (save_accounts_to_file p a w)) = environ w"
  "dotenv (fst (save_accounts_to_file p a w)) = dotenv w"
  "dotenv_writable (fst (save_accounts_to_file p a w)) = dotenv_writable w"
  by (simp_all add: save_accounts_to_file_def)

lemma load_frame:
  "environ (fst (load_accounts_from_file p w)) = environ w"
  "dotenv (fst (load_accounts_from_file p w)) = dotenv w"
  "dotenv_writable (fst (load_accounts_from_file p w)) = dotenv_writable w"
  by (simp_all add: load_accounts_from_file_def save_frame
        split: option.splits file_content.splits json.splits)

lemma update_account_status_frame:
  "environ (fst (update_account_status p e s w)) = environ w"
  "dotenv (fst (update_account_status p e s w)) = dotenv w"
  "dotenv_writable (fst (update_account_status p e s w)) = dotenv_writable w"
  using load_frame [of p w]
  by (simp_all add: update_account_status_def save_frame split_beta
        split: sum.splits option.splits)

lemma get_current_account_frame:
  "environ (fst (get_current_account_from_file p w)) = environ w"
  "dotenv (fst (get_current_account_from_file p w)) = dotenv w"
  "dotenv_writable (fst (get_current_account_from_file p w)) = dotenv_writable w"
  using load_frame [of p w]
  by (simp_all add: get_current_account_from_file_def split_beta
        split: sum.splits option.splits)

lemma refresh_frame:
  "environ (fst (refresh_jwt_token up w)) = environ w"
  "dotenv_writable (fst (refresh_jwt_token up w)) = dotenv_writable w"
  "k \<noteq> ''WARP_ID_TOKEN'' \<Longrightarrow> dotenv (fst (refresh_jwt_token up w)) k = dotenv w k"
  by (simp_all add: refresh_jwt_token_def update_env_id_token_def update_env_frame
        update_env_dotenv
        split: http_result.splits option.splits sum.splits bool.splits json.splits)

lemma error_result_no_access: "py_in ''access_token'' (error_result e) = Some False"
  by (simp add: error_result_def)

lemma subscript_Inr: "subscript v k = Inr a \<Longrightarrow> \<exists>kvs. v = JObj kvs \<and> map_of kvs k = Some a"
  by (cases v) (auto split: option.splits)

lemma refresh_result_cases:
  "(\<exists>e. refresh_jwt_token up w = (w, error_result e))
   \<or> (\<exists>r td. token_endpoint up (refresh_request w) = Response r \<and> status_code r = 200
         \<and> json_body r = Some td \<and> snd (refresh_jwt_token up w) = td)"
  by (auto simp add: refresh_jwt_token_def
        split: http_result.splits option.splits bool.splits sum.splits)

lemma refresh_access_issued:
  assumes "py_in ''access_token'' (snd (refresh_jwt_token up w)) = Some True"
      and "subscript (snd (refresh_jwt_token up w)) ''access_token'' = Inr a"
  shows "issues up (refresh_request w) a"
    and "dotenv (fst (refresh_jwt_token up w)) ''WARP_ID_TOKEN'' =
           (case issued_id_token up (refresh_request w) of
              None \<Rightarrow> dotenv w ''WARP_ID_TOKEN''
            | Some i \<Rightarrow> if dotenv_writable w then Some i else dotenv w ''WARP_ID_TOKEN'')"
proof -
  from refresh_result_cases [of up w] assms(1) obtain r td
    where r: "token_endpoint up (refresh_request w) = Response r"
      and s: "status_code r = 200" and td: "json_body r = Some td"
      and res: "snd (refresh_jwt_token up w) = td"
    by (auto simp add: error_result_no_access)
  from subscript_Inr [OF assms(2)] res obtain kvs
    where kvs: "td = JObj kvs" "map_of kvs ''access_token'' = Some a" by auto
  show "issues up (refresh_request w) a"
    using r s td kvs by (simp add: issues_def)
  show "dotenv (fst (refresh_jwt_token up w)) ''WARP_ID_TOKEN'' =
           (case issued_id_token up (refresh_request w) of
              None \<Rightarrow> dotenv w ''WARP_ID_TOKEN''
            | Some i \<Rightarrow> if dotenv_writable w then Some i else dotenv w ''WARP_ID_TOKEN'')"
    using refresh_200_object(2) [OF r s, of kvs] td kvs r s
    by (simp add: issued_id_token_def split: option.splits json.splits)
qed

lemma update_env_file_ok:
  "update_env_file v w = (w', True) \<Longrightarrow>
   \<exists>a. v = JStr a \<and> dotenv_writable w \<and> w' = w\<lparr>dotenv := (dotenv w)(''WARP_JWT'' \<mapsto> a)\<rparr>"
  by (auto simp add: update_env_file_def update_env_def set_key_def
        split: json.splits if_splits option.splits)

lemma first_refresh_ok:
  assumes "first_token_refresh up w = (w', Inr True)"
  shows "session_persisted up (refresh_request w) w w'
         \<and> dotenv w' ''WARP_REFRESH_TOKEN'' = dotenv w ''WARP_REFRESH_TOKEN''"
proof -
  let ?w1 = "fst (refresh_jwt_token up w)" and ?td = "snd (refresh_jwt_token up w)"
  from assms have inn: "py_in ''access_token'' ?td = Some True"
    by (auto simp add: first_token_refresh_def split_beta
          split: if_splits option.splits bool.splits sum.splits)
  from assms inn obtain new_jwt where sub: "subscript ?td ''access_token'' = Inr new_jwt"
    and upd1: "snd (update_env_file new_jwt ?w1)" "w' = fst (update_env_file new_jwt ?w1)"
    by (auto simp add: first_token_refresh_def split_beta
          split: if_splits option.splits bool.splits sum.splits)
  from upd1 have upd: "update_env_file new_jwt ?w1 = (w', True)"
    by (simp add: prod_eq_iff)
  from update_env_file_ok [OF upd] obtain a where a: "new_jwt = JStr a" "dotenv_writable ?w1"
    "w' = ?w1\<lparr>dotenv := (dotenv ?w1)(''WARP_JWT'' \<mapsto> a)\<rparr>" by blast
  have wr: "dotenv_writable w" using a(2) by (simp add: refresh_frame)
  have iss: "issues up (refresh_request w) (JStr a)"
    using refresh_access_issued(1) [OF inn sub] a(1) by simp
  have idt: "dotenv w' ''WARP_ID_TOKEN'' =
           (case issued_id_token up (refresh_request w) of
              None \<Rightarrow> dotenv w ''WARP_ID_TOKEN'' | Some i \<Rightarrow> Some i)"
    using refresh_access_issued(2) [OF inn sub] a(3) wr by (simp split: option.splits)
  have rt: "dotenv w' ''WARP_REFRESH_TOKEN'' = dotenv w ''WARP_REFRESH_TOKEN''"
    using a(3) by (simp add: refresh_frame)
  have jwt: "dotenv w' ''WARP_JWT'' = Some a" using a(3) by simp
  show ?thesis using iss idt rt jwt by (simp add: session_persisted_def)
qed

lemma plain_refresh_ok:
  assumes "plain_token_refresh L now up w = (w', Inr True)"
  shows "session_persisted up (refresh_request w) w w'
         \<and> dotenv w' ''WARP_REFRESH_TOKEN'' = dotenv w ''WARP_REFRESH_TOKEN''"
proof -
  let ?w1 = "fst (refresh_jwt_token up w)" and ?td = "snd (refresh_jwt_token up w)"
  from assms have inn: "py_in ''access_token'' ?td = Some True"
    by (auto simp add: plain_token_refresh_def split_beta
          split: if_splits option.splits bool.splits sum.splits)
  from assms inn obtain new_jwt where sub: "subscript ?td ''access_token'' = Inr new_jwt"
    and upd1: "snd (update_env_file new_jwt ?w1)" "w' = fst (update_env_file new_jwt ?w1)"
    by (auto simp add: plain_token_refresh_def split_beta
          split: if_splits option.splits bool.splits sum.splits)
  from upd1 have upd: "update_env_file new_jwt ?w1 = (w', True)"
    by (simp add: prod_eq_iff)
  from update_env_file_ok [OF upd] obtain a where a: "new_jwt = JStr a" "dotenv_writable ?w1"
    "w' = ?w1\<lparr>dotenv := (dotenv ?w1)(''WARP_JWT'' \<mapsto> a)\<rparr>" by blast
  have wr: "dotenv_writable w" using a(2) by (simp add: refresh_frame)
  have iss: "issues up (refresh_request w) (JStr a)"
    using refresh_access_issued(1) [OF inn sub] a(1) by simp
  have idt: "dotenv w' ''WARP_ID_TOKEN'' =
           (case issued_id_token up (refresh_request w) of
              None \<Rightarrow> dotenv w ''WARP_ID_TOKEN'' | Some i \<Rightarrow> Some i)"
    using refresh_access_issued(2) [OF inn sub] a(3) wr by (simp split: option.splits)
  have rt: "dotenv w' ''WARP_REFRESH_TOKEN'' = dotenv w ''WARP_REFRESH_TOKEN''"
    using a(3) by (simp add: refresh_frame)
  have jwt: "dotenv w' ''WARP_JWT'' = Some a" using a(3) by simp
  show ?thesis using iss idt rt jwt by (simp add: session_persisted_def)
qed


lemma use_token_data_ok:
  assumes "use_token_data L now p email (JStr rt) td w = Inr (w', True)"
  shows "\<exists>a. py_in ''access_token'' td = Some True
           \<and> subscript td ''access_token'' = Inr (JStr a)
           \<and> dotenv_writable w
           \<and> dotenv w' = (dotenv w)(''WARP_REFRESH_TOKEN'' \<mapsto> rt, ''WARP_JWT'' \<mapsto> a)
           \<and> environ w' = environ w"
proof -
  let ?w1 = "fst (update_env_refresh_token (JStr rt) w)"
  let ?w2 = "fst (update_account_status p email (JStr ''available'') ?w1)"
  from assms have inn: "py_in ''access_token'' td = Some True"
    by (auto simp add: use_token_data_def
          split: if_splits option.splits bool.splits sum.splits)
  from assms inn obtain new_jwt where sub: "subscript td ''access_token'' = Inr new_jwt"
    and upd: "update_env_file new_jwt ?w2 = (w', True)"
    by (auto simp add: use_token_data_def Let_def
          split: if_splits option.splits bool.splits sum.splits)
  from update_env_file_ok [OF upd] obtain a where a: "new_jwt = JStr a" "dotenv_writable ?w2"
    "w' = ?w2\<lparr>dotenv := (dotenv ?w2)(''WARP_JWT'' \<mapsto> a)\<rparr>" by blast
  have wr: "dotenv_writable w"
    using a(2) by (simp add: update_account_status_frame update_env_refresh_token_def update_env_frame)
  have d2: "dotenv ?w2 = (dotenv w)(''WARP_REFRESH_TOKEN'' \<mapsto> rt)"
    using wr by (simp add: update_account_status_frame update_env_refresh_token_def update_env_dotenv)
  have e2: "environ ?w2 = environ w"
    by (simp add: update_account_status_frame update_env_refresh_token_def update_env_frame)
  show ?thesis
    using inn sub a(1) wr a(3) d2 e2 by simp
qed

lemma refresh_from_file_ok:
  assumes "refresh_from_file L now up p w = (w', Inr True)"
  shows "\<exists>rt. environ w' ''WARP_REFRESH_TOKEN'' = Some rt
            \<and> dotenv w' ''WARP_REFRESH_TOKEN'' = Some rt
            \<and> session_persisted up (WithRefresh (JStr rt)) w w'"
proof -
  let ?w1 = "fst (get_current_account_from_file p w)"
  from assms obtain kvs rt where
    found: "snd (get_current_account_from_file p w) = Inr (JObj kvs)"
    and rt: "dict_get kvs ''refresh_token'' JNull = JStr rt" "rt \<noteq> []"
    by (auto simp add: refresh_from_file_def split_beta Let_def
          split: sum.splits json.splits if_splits)
  let ?email = "dict_get kvs ''email'' (JStr ''unknown'')"
  let ?w2 = "?w1\<lparr>environ := (environ ?w1)(''WARP_REFRESH_TOKEN'' \<mapsto> rt)\<rparr>"
  let ?w3 = "fst (refresh_jwt_token up ?w2)" and ?td = "snd (refresh_jwt_token up ?w2)"
  from assms found rt have use: "use_token_data L now p ?email (JStr rt) ?td ?w3 = Inr (w', True)"
    by (auto simp add: refresh_from_file_def split_beta Let_def
          split: sum.splits json.splits if_splits)
  have req: "refresh_request ?w2 = WithRefresh (JStr rt)"
    using rt(2) by (simp add: refresh_request_def)
  from use_token_data_ok [OF use] obtain a where
    inn: "py_in ''access_token'' ?td = Some True"
    and sub: "subscript ?td ''access_token'' = Inr (JStr a)"
    and wr3: "dotenv_writable ?w3"
    and d: "dotenv w' = (dotenv ?w3)(''WARP_REFRESH_TOKEN'' \<mapsto> rt, ''WARP_JWT'' \<mapsto> a)"
    and e: "environ w' = environ ?w3" by blast
  have wr2: "dotenv_writable ?w2" using wr3 by (simp add: refresh_frame)
  have d2: "dotenv ?w2 = dotenv w" by (simp add: get_current_account_frame)
  have iss: "issues up (WithRefresh (JStr rt)) (JStr a)"
    using refresh_access_issued(1) [OF inn sub] req by simp
  have idt: "dotenv ?w3 ''WARP_ID_TOKEN'' =
           (case issued_id_token up (WithRefresh (JStr rt)) of
              None \<Rightarrow> dotenv w ''WARP_ID_TOKEN'' | Some i \<Rightarrow> Some i)"
    using refresh_access_issued(2) [OF inn sub] req wr2 d2 by (simp split: option.splits)
  have env: "environ w' ''WARP_REFRESH_TOKEN'' = Some rt"
    using e by (simp add: refresh_frame)
  show ?thesis
    using env d iss idt by (auto simp add: session_persisted_def)
qed

lemma json_of_200_Inr:
  "json_of_200 res = Inr j \<Longrightarrow>
   \<exists>r. res = Response r \<and> status_code r = 200 \<and> json_body r = Some j"
  by (auto simp add: json_of_200_def split: http_result.splits if_splits option.splits)

lemma py_get_Inr:
  "py_get v k JNull = Inr (JStr a) \<Longrightarrow> \<exists>kvs. v = JObj kvs \<and> map_of kvs k = Some (JStr a)"
  by (cases v) (auto simp add: dict_get_def split: option.splits)

lemma acquire_anonymous_ok:
  assumes "acquire_anonymous_access_token up w = (w', Inr (JStr a))" and "dotenv_writable w"
  shows "dotenv w' ''WARP_JWT'' = Some a
         \<and> (\<exists>rt. issues up (WithRefresh rt) (JStr a)
                 \<and> (\<forall>s. rt = JStr s \<longrightarrow> dotenv w' ''WARP_REFRESH_TOKEN'' = Some s))"
proof -
  from assms(1) obtain rt token_data where
    j: "json_of_200 (token_endpoint up (WithRefresh rt)) = Inr token_data"
    and g: "py_get token_data ''access_token'' JNull = Inr (JStr a)"
    and w': "w' = fst (update_env_file (JStr a) (fst (update_env_refresh_token rt w)))"
    by (auto simp add: acquire_anonymous_access_token_def Let_def
          split: sum.splits if_splits)
  from json_of_200_Inr [OF j] obtain r where
    r: "token_endpoint up (WithRefresh rt) = Response r" "status_code r = 200"
       "json_body r = Some token_data" by blast
  from py_get_Inr [OF g] obtain kvs where
    kvs: "token_data = JObj kvs" "map_of kvs ''access_token'' = Some (JStr a)" by blast
  have iss: "issues up (WithRefresh rt) (JStr a)"
    using r kvs by (simp add: issues_def)
  have d: "dotenv w' = (dotenv (fst (update_env_refresh_token rt w)))(''WARP_JWT'' \<mapsto> a)"
    using w' assms(2)
    by (simp add: update_env_file_def update_env_refresh_token_def update_env_dotenv
          update_env_frame)
  have "dotenv w' ''WARP_JWT'' = Some a" using d by simp
  moreover have "\<forall>s. rt = JStr s \<longrightarrow> dotenv w' ''WARP_REFRESH_TOKEN'' = Some s"
    using d assms(2) by (simp add: update_env_refresh_token_def update_env_dotenv)
  ultimately show ?thesis using iss by blast
qed


text \<open>
  C2, as amended. When a refresh with the refresh token (the one taken when no access
  token is stored, or the plain refresh) or the file refresh returns true, the secrets
  file holds the access token that the token endpoint issued for the request just sent,
  and the identity token of the same answer when it carried one as a string (the old
  identity token stays otherwise); the file refresh has also written the refresh token it
  sent, a refresh with the refresh token leaves the stored refresh token as it was. When
  the anonymous acquisition returns a token and the secrets file can be written, the file
  holds that token, and it holds the refresh token the token was issued for when that
  refresh token is a string.
\<close>

theorem refresh_persists_session:
  "(first_token_refresh up w = (w', Inr True) \<longrightarrow>
      session_persisted up (refresh_request w) w w'
      \<and> dotenv w' ''WARP_REFRESH_TOKEN'' = dotenv w ''WARP_REFRESH_TOKEN'')
   \<and> (plain_token_refresh L now up w = (w', Inr True) \<longrightarrow>
        session_persisted up (refresh_request w) w w'
        \<and> dotenv w' ''WARP_REFRESH_TOKEN'' = dotenv w ''WARP_REFRESH_TOKEN'')
   \<and> (refresh_from_file L now up p w = (w', Inr True) \<longrightarrow>
        (\<exists>rt. environ w' ''WARP_REFRESH_TOKEN'' = Some rt
             \<and> dotenv w' ''WARP_REFRESH_TOKEN'' = Some rt
             \<and> session_persisted up (WithRefresh (JStr rt)) w w'))
   \<and> (acquire_anonymous_access_token up w = (w', Inr (JStr a)) \<longrightarrow> dotenv_writable w \<longrightarrow>
        dotenv w' ''WARP_JWT'' = Some a
        \<and> (\<exists>rt. issues up (WithRefresh rt) (JStr a)
                \<and> (\<forall>s. rt = JStr s \<longrightarrow> dotenv w' ''WARP_REFRESH_TOKEN'' = Some s)))"
  using first_refresh_ok plain_refresh_ok refresh_from_file_ok acquire_anonymous_ok by blast

lemma anonymous_run:
  "acquire_anonymous_access_token
     (anonymous_upstream (ok_response (JObj [(''access_token'', JStr ''A2'')]))) session_world
   = (session_world\<lparr>dotenv := (dotenv session_world)
         (''WARP_REFRESH_TOKEN'' \<mapsto> ''R2'', ''WARP_JWT'' \<mapsto> ''A2'')\<rparr>, Inr (JStr ''A2''))"
  by (simp add: acquire_anonymous_access_token_def anonymous_upstream_def ok_response_def
        json_of_200_def extract_id_token_def dict_get_def update_env_refresh_token_def
        update_env_file_def update_env_def set_key_def session_world_def Let_def)

lemma plain_run:
  "snd (plain_token_refresh fresh_libs 1700000000
          (token_upstream (ok_response (JObj [(''access_token'', JStr fresh_token),
                                               (''id_token'', JStr ''I9'')])))
          session_world) = Inr True"
  using fresh_token_valid
  by (simp add: plain_token_refresh_def refresh_jwt_token_def token_upstream_def ok_response_def
        refresh_request_def session_world_def is_token_expired_value_def update_env_file_def
        update_env_id_token_def update_env_def set_key_def dict_get_def)

lemma first_run:
  "snd (first_token_refresh
          (token_upstream (ok_response (JObj [(''access_token'', JStr fresh_token),
                                               (''id_token'', JStr ''I9'')])))
          session_world) = Inr True"
  by (simp add: first_token_refresh_def refresh_jwt_token_def token_upstream_def ok_response_def
        refresh_request_def session_world_def update_env_file_def
        update_env_id_token_def update_env_def set_key_def dict_get_def)

theorem refresh_persists_session_witness:
  "dotenv_writable session_world
   \<and> acquire_anonymous_access_token
        (anonymous_upstream (ok_response (JObj [(''access_token'', JStr ''A2'')]))) session_world
      = (session_world\<lparr>dotenv := (dotenv session_world)
            (''WARP_REFRESH_TOKEN'' \<mapsto> ''R2'', ''WARP_JWT'' \<mapsto> ''A2'')\<rparr>, Inr (JStr ''A2''))
   \<and> (\<exists>rt. issues (anonymous_upstream (ok_response (JObj [(''access_token'', JStr ''A2'')])))
              (WithRefresh rt) (JStr ''A2''))
   \<and> session_persisted
        (token_upstream (ok_response (JObj [(''access_token'', JStr fresh_token),
                                            (''id_token'', JStr ''I9'')])))
        (refresh_request session_world) session_world
        (fst (plain_token_refresh fresh_libs 1700000000
               (token_upstream (ok_response (JObj [(''access_token'', JStr fresh_token),
                                                   (''id_token'', JStr ''I9'')])))
               session_world))
   \<and> session_persisted
        (token_upstream (ok_response (JObj [(''access_token'', JStr fresh_token),
                                            (''id_token'', JStr ''I9'')])))
        (refresh_request session_world) session_world
        (fst (first_token_refresh
               (token_upstream (ok_response (JObj [(''access_token'', JStr fresh_token),
                                                   (''id_token'', JStr ''I9'')])))
               session_world))"
proof -
  let ?anon = "anonymous_upstream (ok_response (JObj [(''access_token'', JStr ''A2'')]))"
  let ?tok = "token_upstream (ok_response (JObj [(''access_token'', JStr fresh_token),
                                                 (''id_token'', JStr ''I9'')]))"
  let ?w2 = "session_world\<lparr>dotenv := (dotenv session_world)
                (''WARP_REFRESH_TOKEN'' \<mapsto> ''R2'', ''WARP_JWT'' \<mapsto> ''A2'')\<rparr>"
  let ?w3 = "fst (plain_token_refresh fresh_libs 1700000000 ?tok session_world)"
  let ?w4 = "fst (first_token_refresh ?tok session_world)"
  have w: "dotenv_writable session_world"
    by (simp add: session_world_def)
  have p: "plain_token_refresh fresh_libs 1700000000 ?tok session_world = (?w3, Inr True)"
    using plain_run by (simp add: prod_eq_iff)
  have f: "first_token_refresh ?tok session_world = (?w4, Inr True)"
    using first_run by (simp add: prod_eq_iff)
  have one: "\<exists>rt. issues ?anon (WithRefresh rt) (JStr ''A2'')"
    using refresh_persists_session
            [where up = ?anon and w = session_world and w' = ?w2 and a = "''A2''"
               and L = fresh_libs and now = 1700000000 and p = "''data/accounts.json''"]
          anonymous_run w
    by blast
  have two: "session_persisted ?tok (refresh_request session_world) session_world ?w3"
    using refresh_persists_session
            [where up = ?tok and w = session_world and w' = ?w3 and a = "''A2''"
               and L = fresh_libs and now = 1700000000 and p = "''data/accounts.json''"] p
    by blast
  have three: "session_persisted ?tok (refresh_request session_world) session_world ?w4"
    using refresh_persists_session
            [where up = ?tok and w = session_world and w' = ?w4 and a = "''A2''"
               and L = fresh_libs and now = 1700000000 and p = "''data/accounts.json''"] f
    by blast
  show ?thesis
    using w anonymous_run one two three by blast
qed

text \<open>
  The claim as written fails: when the token endpoint refuses the anonymous user's
  request, the acquisition raises, and the secrets file is left with the new refresh
  token beside the access token of the earlier session.
\<close>

theorem partial_update_counterexample:
  "snd (acquire_anonymous_access_token
          (anonymous_upstream (error_response 500 ''unavailable'')) session_world)
     = Inl RuntimeError
   \<and> dotenv session_world ''WARP_REFRESH_TOKEN'' = Some ''R1''
   \<and> dotenv (fst (acquire_anonymous_access_token
          (anonymous_upstream (error_response 500 ''unavailable'')) session_world))
        ''WARP_REFRESH_TOKEN'' = Some ''R2''
   \<and> dotenv (fst (acquire_anonymous_access_token
          (anonymous_upstream (error_response 500 ''unavailable'')) session_world))
        ''WARP_JWT'' = Some ''A1''"
  by (simp add: acquire_anonymous_access_token_def anonymous_upstream_def ok_response_def
        error_response_def json_of_200_def extract_id_token_def dict_get_def
        update_env_refresh_token_def update_env_def set_key_def session_world_def Let_def)

end
